theory Spec2Isabelle
  imports Main "HOL-Library.AList" "HOL-Library.Word"
begin

section \<open>The dedup index (services/asset-record.ts)\<close>

text \<open>
  JavaScript strings are modelled as \<^typ>\<open>string\<close>, numbers that count bytes or
  milliseconds as \<^typ>\<open>nat\<close>. The field \<open>size\<close> of the source is called
  \<open>asize\<close>, since \<open>size\<close> is a constant of HOL.
\<close>

record AssetUploadRecord =
  localPath :: string
  s3Key :: string
  s3Url :: string
  contentType :: string
  asize :: nat
  hash :: string
  uploadedAt :: nat

record DocAssetMapping =
  docId :: string
  shareId :: string
  assets :: "AssetUploadRecord list"
  createdAt :: nat
  updatedAt :: nat

text \<open>
  The field \<open>mappings\<close> of \<open>AssetRecordManager\<close> is a JavaScript \<open>Map\<close> from
  document id to mapping. A \<open>Map\<close> iterates in insertion order, \<open>set\<close> on a key that
  is present keeps its position, on a new key appends, \<open>delete\<close> removes the entry:
  an association list with \<^const>\<open>map_of\<close>, \<^const>\<open>AList.update\<close> and
  \<^const>\<open>AList.delete\<close>. Persisting (\<open>save\<close>) writes the values of the map out and
  does not change it; the model is the in-memory map. The keys of a \<open>Map\<close> are
  distinct: the list stands for a map when its keys are. Every reading of
  \<open>Date.now()\<close> within one call is the argument \<open>now\<close>.
\<close>

type_synonym mappings = "(string \<times> DocAssetMapping) list"

definition addOrUpdateMapping ::
  "nat \<Rightarrow> mappings \<Rightarrow> string \<Rightarrow> string \<Rightarrow> AssetUploadRecord list \<Rightarrow> mappings" where
  "addOrUpdateMapping now ms did sid as =
     (case map_of ms did of
        Some existing \<Rightarrow>
          AList.update did (existing\<lparr>shareId := sid, assets := as, updatedAt := now\<rparr>) ms
      | None \<Rightarrow>
          AList.update did
            \<lparr>docId = did, shareId = sid, assets = as, createdAt = now, updatedAt = now\<rparr> ms)"

definition getMapping :: "mappings \<Rightarrow> string \<Rightarrow> DocAssetMapping option" where
  "getMapping ms did = map_of ms did"

definition removeMapping :: "mappings \<Rightarrow> string \<Rightarrow> mappings" where
  "removeMapping ms did = AList.delete did ms"

text \<open>
  The loops over \<open>this.mappings.entries()\<close> visit every entry once, also when the
  body deletes the entry it is at; they are folds over the entries, with the map as the
  state.
\<close>

definition removeMappingByShareId_step ::
  "string \<Rightarrow> mappings \<Rightarrow> string \<times> DocAssetMapping \<Rightarrow> mappings" where
  "removeMappingByShareId_step sid ms e =
     (if shareId (snd e) = sid then AList.delete (fst e) ms else ms)"

definition removeMappingByShareId :: "mappings \<Rightarrow> string \<Rightarrow> mappings" where
  "removeMappingByShareId ms sid = foldl (removeMappingByShareId_step sid) ms ms"

definition getAllMappings :: "mappings \<Rightarrow> DocAssetMapping list" where
  "getAllMappings ms = map snd ms"

fun findAssetByHash :: "mappings \<Rightarrow> string \<Rightarrow> AssetUploadRecord option" where
  "findAssetByHash [] h = None"
| "findAssetByHash (e # ms) h =
     (case find (\<lambda>a. hash a = h) (assets (snd e)) of
        Some asset \<Rightarrow> Some asset
      | None \<Rightarrow> findAssetByHash ms h)"

fun findAssetByLocalPath :: "mappings \<Rightarrow> string \<Rightarrow> AssetUploadRecord option" where
  "findAssetByLocalPath [] p = None"
| "findAssetByLocalPath (e # ms) p =
     (case find (\<lambda>a. localPath a = p) (assets (snd e)) of
        Some asset \<Rightarrow> Some asset
      | None \<Rightarrow> findAssetByLocalPath ms p)"

text \<open>
  For comparison with \<open>findAssetByHash\<close>: the lookup that treats a record as the
  same asset only when the fingerprint and the size are both equal. The source has no
  such function.
\<close>

fun findAssetByHashAndSize :: "mappings \<Rightarrow> string \<Rightarrow> nat \<Rightarrow> AssetUploadRecord option" where
  "findAssetByHashAndSize [] h n = None"
| "findAssetByHashAndSize (e # ms) h n =
     (case find (\<lambda>a. hash a = h \<and> asize a = n) (assets (snd e)) of
        Some asset \<Rightarrow> Some asset
      | None \<Rightarrow> findAssetByHashAndSize ms h n)"

text \<open>
  \<open>removeAssetFromDoc\<close> returns the new map and the boolean of the source. The
  assignment \<open>mapping.assets = mapping.assets.filter(...)\<close> happens before the
  comparison of the lengths, so the branch that returns \<open>false\<close> stores the filtered
  copy too.
\<close>

definition removeAssetFromDoc ::
  "nat \<Rightarrow> mappings \<Rightarrow> string \<Rightarrow> string \<Rightarrow> mappings \<times> bool" where
  "removeAssetFromDoc now ms did key =
     (case map_of ms did of
        None \<Rightarrow> (ms, False)
      | Some mapping \<Rightarrow>
          (let originalLength = length (assets mapping);
               mapping1 = mapping\<lparr>assets := filter (\<lambda>a. s3Key a \<noteq> key) (assets mapping)\<rparr>
           in if length (assets mapping1) = originalLength
              then (AList.update did mapping1 ms, False)
              else (let mapping2 = mapping1\<lparr>updatedAt := now\<rparr>
                    in if length (assets mapping2) = 0
                       then (AList.delete did ms, True)
                       else (AList.update did mapping2 ms, True))))"

definition removeAssets_step ::
  "nat \<Rightarrow> string list \<Rightarrow> mappings \<times> nat \<Rightarrow> string \<times> DocAssetMapping \<Rightarrow> mappings \<times> nat" where
  "removeAssets_step now keys st e =
     (let ms = fst st; removedCount = snd st; did = fst e; mapping = snd e;
          originalLength = length (assets mapping);
          mapping1 = mapping\<lparr>assets := filter (\<lambda>a. \<not> List.member keys (s3Key a)) (assets mapping)\<rparr>
      in if length (assets mapping1) < originalLength
         then (let removedCount1 = removedCount + (originalLength - length (assets mapping1));
                   mapping2 = mapping1\<lparr>updatedAt := now\<rparr>
               in if length (assets mapping2) = 0
                  then (AList.delete did ms, removedCount1)
                  else (AList.update did mapping2 ms, removedCount1))
         else (AList.update did mapping1 ms, removedCount))"

definition removeAssets :: "nat \<Rightarrow> mappings \<Rightarrow> string list \<Rightarrow> mappings \<times> nat" where
  "removeAssets now ms keys = foldl (removeAssets_step now keys) (ms, 0) ms"

definition removeAssetsByFilter ::
  "nat \<Rightarrow> mappings \<Rightarrow> (AssetUploadRecord \<Rightarrow> string \<Rightarrow> bool) \<Rightarrow> mappings \<times> string list" where
  "removeAssetsByFilter now ms flt =
     (let toRemove = concat (map (\<lambda>e. map s3Key (filter (\<lambda>a. flt a (fst e)) (assets (snd e)))) ms)
      in if length toRemove > 0
         then (fst (removeAssets now ms toRemove), toRemove)
         else (ms, toRemove))"

text \<open>The two parts of the invariant of the index.\<close>

definition uniqueDocs :: "mappings \<Rightarrow> bool" where
  "uniqueDocs ms = (distinct (map fst ms) \<and> list_all (\<lambda>e. docId (snd e) = fst e) ms)"

definition noEmptyMappings :: "mappings \<Rightarrow> bool" where
  "noEmptyMappings ms = list_all (\<lambda>e. assets (snd e) \<noteq> []) ms"

text \<open>Sample data: one document with one ten-byte asset.\<close>

definition sampleAsset :: AssetUploadRecord where
  "sampleAsset =
     \<lparr>localPath = ''assets/a.png'', s3Key = ''siyuan-share/1700000000000-0123456789abcdef.png'',
      s3Url = ''https://b.s3.example.com/siyuan-share/1700000000000-0123456789abcdef.png'',
      contentType = ''image/png'', asize = 10, hash = ''0123456789abcdef'',
      uploadedAt = 1700000000000\<rparr>"

definition sampleIndex :: mappings where
  "sampleIndex =
     [(''doc1'', \<lparr>docId = ''doc1'', shareId = ''share1'', assets = [sampleAsset],
                  createdAt = 1700000000000, updatedAt = 1700000000000\<rparr>)]"

section \<open>JavaScript strings, numbers and the platform\<close>

text \<open>
  A string stands for its UTF-8 bytes; every string operation the code uses (concatenation,
  splitting at \<open>/\<close>, taking a suffix from the last dot, comparing with ASCII literals)
  gives the same result on the bytes. A byte of a typed array is a word of 8 bits.
\<close>

type_synonym byte = "8 word"

definition nl :: string where
  "nl = [CHR 0x0A]"

text \<open>\<open>a || b\<close> on a string that may be undefined: the empty string is falsy.\<close>

definition orElse :: "string option \<Rightarrow> string \<Rightarrow> string" where
  "orElse a b = (case a of None \<Rightarrow> b | Some s \<Rightarrow> if s = [] then b else s)"

text \<open>\<open>String(n)\<close> and \<open>n.toString(16)\<close> for a non-negative integer.\<close>

fun toString10 :: "nat \<Rightarrow> string" where
  "toString10 n =
     (if n < 10 then [''0123456789'' ! n]
      else toString10 (n div 10) @ [''0123456789'' ! (n mod 10)])"

fun toString16 :: "nat \<Rightarrow> string" where
  "toString16 n =
     (if n < 16 then [''0123456789abcdef'' ! n]
      else toString16 (n div 16) @ [''0123456789abcdef'' ! (n mod 16)])"

declare toString10.simps [simp del] toString16.simps [simp del]

fun join :: "string \<Rightarrow> string list \<Rightarrow> string" where
  "join sep [] = []"
| "join sep [x] = x"
| "join sep (x # y # ys) = x @ sep @ join sep (y # ys)"

text \<open>\<open>s.split('/')\<close>: the pieces between the separators, at least one piece.\<close>

fun split_at :: "char \<Rightarrow> string \<Rightarrow> string list" where
  "split_at c [] = [[]]"
| "split_at c (x # xs) =
     (if x = c then [] # split_at c xs
      else (case split_at c xs of p # ps \<Rightarrow> (x # p) # ps | [] \<Rightarrow> [[x]]))"

definition lastIndexOf :: "string \<Rightarrow> char \<Rightarrow> int" where
  "lastIndexOf s c =
     (if c \<in> set s then int (length s) - 1 - int (length (takeWhile (\<lambda>x. x \<noteq> c) (rev s)))
      else - 1)"

text \<open>
  \<open>toLowerCase\<close> on the ASCII letters. The result is only compared with the ASCII keys
  of the MIME table.
\<close>

definition toLowerCase :: "string \<Rightarrow> string" where
  "toLowerCase s =
     map (\<lambda>c. let n = (of_char c :: nat) in if 65 \<le> n \<and> n \<le> 90 then char_of (n + 32) else c) s"

text \<open>\<open>endpoint.replace(/^https?:\/\//, '')\<close> and \<open>domain.replace(/\/$/, '')\<close>.\<close>

definition stripScheme :: "string \<Rightarrow> string" where
  "stripScheme s =
     (if take 7 s = ''http://'' then drop 7 s
      else if take 8 s = ''https://'' then drop 8 s
      else s)"

definition stripTrailingSlash :: "string \<Rightarrow> string" where
  "stripTrailingSlash s = (if s \<noteq> [] \<and> last s = CHR ''/'' then butlast s else s)"

text \<open>\<open>ct.includes(sub)\<close>.\<close>

fun str_includes :: "string \<Rightarrow> string \<Rightarrow> bool" where
  "str_includes [] sub = (sub = [])"
| "str_includes (c # cs) sub = (take (length sub) (c # cs) = sub \<or> str_includes cs sub)"

text \<open>\<open>new TextEncoder().encode(s)\<close>.\<close>

definition textEncode :: "string \<Rightarrow> byte list" where
  "textEncode s = map of_char s"

text \<open>
  The functions of the platform that the code calls and does not define: the digests and
  keyed hashes of \<open>crypto.subtle\<close>, \<open>btoa\<close> (on the string whose characters are the
  given bytes) and \<open>encodeURIComponent\<close>. They are arguments of the model.
\<close>

record platform =
  digestSHA256 :: "byte list \<Rightarrow> byte list"
  signHmacSHA256 :: "byte list \<Rightarrow> byte list \<Rightarrow> byte list"
  signHmacSHA1 :: "byte list \<Rightarrow> byte list \<Rightarrow> byte list"
  btoa :: "byte list \<Rightarrow> string"
  encodeURIComponent :: "string \<Rightarrow> string"

text \<open>A \<open>Date\<close> object is the record of what its methods return.\<close>

record Date =
  getUTCFullYear :: nat
  getUTCMonth :: nat
  getUTCDate :: nat
  getUTCHours :: nat
  getUTCMinutes :: nat
  getUTCSeconds :: nat
  toUTCString :: string

section \<open>Configuration and files (types.ts)\<close>

datatype provider = aws | oss

record S3Config =
  enabled :: bool
  endpoint :: string
  region :: string
  bucket :: string
  accessKeyId :: string
  secretAccessKey :: string
  customDomain :: "string option"
  pathPrefix :: "string option"
  provider :: "provider option"

record File =
  fname :: string
  ftype :: string
  bytes :: "byte list"

definition fsize :: "File \<Rightarrow> nat" where
  "fsize file = length (bytes file)"

section \<open>The upload service (S3UploadService)\<close>

subsection \<open>Hashing and helpers\<close>

text \<open>
  The map \<open>b => { const hex = b.toString(16); return hex.length === 1 ? '0' + hex : hex; }\<close>
  followed by \<open>join('')\<close>, as in \<open>sha256\<close>, \<open>hmacSha256Hex\<close> and
  \<open>calculateFileHash\<close>.
\<close>

definition byteHex :: "byte \<Rightarrow> string" where
  "byteHex b = (let hex = toString16 (unat b) in if length hex = 1 then CHR ''0'' # hex else hex)"

definition hexOfBytes :: "byte list \<Rightarrow> string" where
  "hexOfBytes bs = concat (map byteHex bs)"

definition calculateFileHash :: "platform \<Rightarrow> File \<Rightarrow> string" where
  "calculateFileHash pf file =
     (let hashBuffer = digestSHA256 pf (bytes file);
          hashHex = hexOfBytes hashBuffer
      in take 16 hashHex)"

definition getFileExtension :: "string \<Rightarrow> string" where
  "getFileExtension filename =
     (let lastDot = lastIndexOf filename (CHR ''.'')
      in if lastDot > 0 then drop (nat lastDot) filename else [])"

definition mimeTypes :: "(string \<times> string) list" where
  "mimeTypes =
     [(''.jpg'', ''image/jpeg''), (''.jpeg'', ''image/jpeg''), (''.png'', ''image/png''),
      (''.gif'', ''image/gif''), (''.webp'', ''image/webp''), (''.svg'', ''image/svg+xml''),
      (''.pdf'', ''application/pdf''), (''.mp4'', ''video/mp4''), (''.mp3'', ''audio/mpeg''),
      (''.zip'', ''application/zip''), (''.txt'', ''text/plain''), (''.md'', ''text/markdown'')]"

definition guessContentType :: "string \<Rightarrow> string" where
  "guessContentType filename =
     (let ext = toLowerCase (getFileExtension filename)
      in orElse (map_of mimeTypes ext) ''application/octet-stream'')"

definition formatDateStamp :: "Date \<Rightarrow> string" where
  "formatDateStamp date =
     (let year = getUTCFullYear date;
          month = getUTCMonth date + 1;
          day = getUTCDate date;
          monthStr = (if month < 10 then ''0'' @ toString10 month else toString10 month);
          dayStr = (if day < 10 then ''0'' @ toString10 day else toString10 day)
      in toString10 year @ monthStr @ dayStr)"

definition formatAmzDate :: "Date \<Rightarrow> string" where
  "formatAmzDate date =
     (let dateStamp = formatDateStamp date;
          hours = getUTCHours date;
          minutes = getUTCMinutes date;
          seconds = getUTCSeconds date;
          hoursStr = (if hours < 10 then ''0'' @ toString10 hours else toString10 hours);
          minutesStr = (if minutes < 10 then ''0'' @ toString10 minutes else toString10 minutes);
          secondsStr = (if seconds < 10 then ''0'' @ toString10 seconds else toString10 seconds)
      in dateStamp @ ''T'' @ hoursStr @ minutesStr @ secondsStr @ ''Z'')"

definition validateConfig :: "S3Config \<Rightarrow> bool" where
  "validateConfig cfg =
     (enabled cfg \<and> endpoint cfg \<noteq> [] \<and> region cfg \<noteq> [] \<and> bucket cfg \<noteq> []
      \<and> accessKeyId cfg \<noteq> [] \<and> secretAccessKey cfg \<noteq> [])"

subsection \<open>Signing\<close>

definition sha256 :: "platform \<Rightarrow> string \<Rightarrow> string" where
  "sha256 pf message = hexOfBytes (digestSHA256 pf (textEncode message))"

definition hmacSha256 :: "platform \<Rightarrow> byte list \<Rightarrow> string \<Rightarrow> byte list" where
  "hmacSha256 pf key message = signHmacSHA256 pf key (textEncode message)"

definition hmacSha256Hex :: "platform \<Rightarrow> byte list \<Rightarrow> string \<Rightarrow> string" where
  "hmacSha256Hex pf key message = hexOfBytes (hmacSha256 pf key message)"

definition getSignatureKey :: "platform \<Rightarrow> string \<Rightarrow> string \<Rightarrow> string \<Rightarrow> string \<Rightarrow> byte list" where
  "getSignatureKey pf secretKey dateStamp regionName serviceName =
     (let kDate = hmacSha256 pf (textEncode (''AWS4'' @ secretKey)) dateStamp;
          kRegion = hmacSha256 pf kDate regionName;
          kService = hmacSha256 pf kRegion serviceName;
          kSigning = hmacSha256 pf kService ''aws4_request''
      in kSigning)"

definition hmacSha1Base64 :: "platform \<Rightarrow> string \<Rightarrow> string \<Rightarrow> string" where
  "hmacSha1Base64 pf secret message =
     btoa pf (signHmacSHA1 pf (textEncode secret) (textEncode message))"

text \<open>
  The local constants \<open>host\<close>, \<open>canonicalHeaders\<close>, \<open>signedHeaders\<close>,
  \<open>canonicalRequest\<close> and \<open>authorizationHeader\<close> of \<open>generateSignedHeaders\<close> are
  definitions of their own, so that theorems can name them. An object of headers is the
  list of its properties in the order of the literal.
\<close>

definition signingHost :: "S3Config \<Rightarrow> string" where
  "signingHost cfg = bucket cfg @ ''.'' @ stripScheme (endpoint cfg)"

definition payloadHash :: string where
  "payloadHash = ''UNSIGNED-PAYLOAD''"

definition canonicalHeaders :: "S3Config \<Rightarrow> Date \<Rightarrow> string" where
  "canonicalHeaders cfg now =
     ''host:'' @ signingHost cfg @ nl @
     ''x-amz-content-sha256:'' @ payloadHash @ nl @
     ''x-amz-date:'' @ formatAmzDate now @ nl"

definition signedHeaders :: string where
  "signedHeaders = ''host;x-amz-content-sha256;x-amz-date''"

definition canonicalRequest :: "platform \<Rightarrow> S3Config \<Rightarrow> Date \<Rightarrow> string \<Rightarrow> string \<Rightarrow> string" where
  "canonicalRequest pf cfg now method key =
     (let canonicalUri = ''/'' @ join ''/'' (map (encodeURIComponent pf) (split_at (CHR ''/'') key));
          canonicalQueryString = []
      in method @ nl @ canonicalUri @ nl @ canonicalQueryString @ nl @
         canonicalHeaders cfg now @ nl @ signedHeaders @ nl @ payloadHash)"

definition authorizationHeader :: "platform \<Rightarrow> S3Config \<Rightarrow> Date \<Rightarrow> string \<Rightarrow> string \<Rightarrow> string" where
  "authorizationHeader pf cfg now method key =
     (let dateStamp = formatDateStamp now;
          amzDate = formatAmzDate now;
          algorithm = ''AWS4-HMAC-SHA256'';
          credentialScope = dateStamp @ ''/'' @ region cfg @ ''/s3/aws4_request'';
          canonicalRequestHash = sha256 pf (canonicalRequest pf cfg now method key);
          stringToSign = algorithm @ nl @ amzDate @ nl @ credentialScope @ nl @ canonicalRequestHash;
          signingKey = getSignatureKey pf (secretAccessKey cfg) dateStamp (region cfg) ''s3'';
          signature = hmacSha256Hex pf signingKey stringToSign
      in algorithm @ '' '' @
         ''Credential='' @ accessKeyId cfg @ ''/'' @ credentialScope @ '', '' @
         ''SignedHeaders='' @ signedHeaders @ '', '' @
         ''Signature='' @ signature)"

definition generateSignedHeaders ::
  "platform \<Rightarrow> S3Config \<Rightarrow> Date \<Rightarrow> string \<Rightarrow> string \<Rightarrow> string \<Rightarrow> nat \<Rightarrow> (string \<times> string) list" where
  "generateSignedHeaders pf cfg now method key ctype contentLength =
     [(''Content-Type'', ctype),
      (''x-amz-date'', formatAmzDate now),
      (''x-amz-content-sha256'', payloadHash),
      (''Authorization'', authorizationHeader pf cfg now method key)]"

text \<open>
  The repository holds a second copy of the service (unnamed/part_002), without the
  provider switch and the relay. Its \<open>generateSignedHeaders\<close> differs from the one
  above in the canonical header block and in the list of signed headers; the other steps
  are the same. The constants of that copy carry the suffix \<open>_part002\<close>.
\<close>

definition canonicalHeaders_part002 :: "S3Config \<Rightarrow> Date \<Rightarrow> string" where
  "canonicalHeaders_part002 cfg now =
     ''x-amz-content-sha256:'' @ payloadHash @ nl @
     ''x-amz-date:'' @ formatAmzDate now @ nl"

definition signedHeaders_part002 :: string where
  "signedHeaders_part002 = ''x-amz-content-sha256;x-amz-date''"

definition canonicalRequest_part002 ::
  "platform \<Rightarrow> S3Config \<Rightarrow> Date \<Rightarrow> string \<Rightarrow> string \<Rightarrow> string" where
  "canonicalRequest_part002 pf cfg now method key =
     (let canonicalUri = ''/'' @ join ''/'' (map (encodeURIComponent pf) (split_at (CHR ''/'') key));
          canonicalQueryString = []
      in method @ nl @ canonicalUri @ nl @ canonicalQueryString @ nl @
         canonicalHeaders_part002 cfg now @ nl @ signedHeaders_part002 @ nl @ payloadHash)"

definition authorizationHeader_part002 ::
  "platform \<Rightarrow> S3Config \<Rightarrow> Date \<Rightarrow> string \<Rightarrow> string \<Rightarrow> string" where
  "authorizationHeader_part002 pf cfg now method key =
     (let dateStamp = formatDateStamp now;
          amzDate = formatAmzDate now;
          algorithm = ''AWS4-HMAC-SHA256'';
          credentialScope = dateStamp @ ''/'' @ region cfg @ ''/s3/aws4_request'';
          canonicalRequestHash = sha256 pf (canonicalRequest_part002 pf cfg now method key);
          stringToSign = algorithm @ nl @ amzDate @ nl @ credentialScope @ nl @ canonicalRequestHash;
          signingKey = getSignatureKey pf (secretAccessKey cfg) dateStamp (region cfg) ''s3'';
          signature = hmacSha256Hex pf signingKey stringToSign
      in algorithm @ '' '' @
         ''Credential='' @ accessKeyId cfg @ ''/'' @ credentialScope @ '', '' @
         ''SignedHeaders='' @ signedHeaders_part002 @ '', '' @
         ''Signature='' @ signature)"

definition generateSignedHeaders_part002 ::
  "platform \<Rightarrow> S3Config \<Rightarrow> Date \<Rightarrow> string \<Rightarrow> string \<Rightarrow> string \<Rightarrow> nat \<Rightarrow> (string \<times> string) list" where
  "generateSignedHeaders_part002 pf cfg now method key ctype contentLength =
     [(''Content-Type'', ctype),
      (''x-amz-date'', formatAmzDate now),
      (''x-amz-content-sha256'', payloadHash),
      (''Authorization'', authorizationHeader_part002 pf cfg now method key)]"

text \<open>The signer of the \<open>oss\<close> provider; \<open>stringToSign\<close> is its local constant.\<close>

definition ossStringToSign :: "S3Config \<Rightarrow> Date \<Rightarrow> string \<Rightarrow> string \<Rightarrow> string \<Rightarrow> string" where
  "ossStringToSign cfg now method key ctype =
     (let resource = ''/'' @ bucket cfg @ ''/'' @ key;
          date = toUTCString now;
          contentMD5 = [];
          canonicalizedOSSHeaders = []
      in join nl [method, contentMD5, ctype, date, canonicalizedOSSHeaders @ resource])"

definition generateOssHeaders ::
  "platform \<Rightarrow> S3Config \<Rightarrow> Date \<Rightarrow> string \<Rightarrow> string \<Rightarrow> string \<Rightarrow> (string \<times> string) list" where
  "generateOssHeaders pf cfg now method key ctype =
     (let date = toUTCString now;
          signature = hmacSha1Base64 pf (secretAccessKey cfg) (ossStringToSign cfg now method key ctype)
      in [(''Date'', date),
          (''Content-Type'', if ctype = [] then ''application/octet-stream'' else ctype),
          (''Authorization'', ''OSS '' @ accessKeyId cfg @ '':'' @ signature)])"

subsection \<open>Transport\<close>

text \<open>
  What the network does is an argument. An \<open>XMLHttpRequest\<close> ends with one of the events
  \<open>load\<close> (with status and response text), \<open>error\<close> or \<open>abort\<close>; the \<open>fetch\<close> to
  \<open>/api/network/forwardProxy\<close> rejects or answers. Of the parsed JSON answer the code
  reads \<open>code\<close> and \<open>msg\<close>; a body that does not parse counts as \<open>{}\<close>, where both are
  undefined. Every request that is sent is recorded as an event, in order.
\<close>

datatype xhr_outcome = Load nat string | NetworkError | Aborted

datatype json_code = CodeUndefined | CodeNumber int | CodeOther

record http_request =
  req_method :: string
  req_url :: string
  req_headers :: "(string \<times> string) list"
  req_body :: "byte list"

record proxy_request =
  px_url :: string
  px_method :: string
  px_headers :: "(string \<times> string) list"
  px_payload :: string
  px_meta :: "string \<times> nat \<times> string"

record proxy_response =
  resp_ok :: bool
  resp_status :: nat
  resp_contentType :: "string option"
  result_code :: json_code
  result_msg :: "string option"

datatype proxy_outcome = FetchRejected string | Responded proxy_response

datatype net_event = XhrSent http_request | ProxyPosted proxy_request

text \<open>The methods of the requests that went to the relay, read off a list of events.\<close>

fun relayMethods :: "net_event list \<Rightarrow> string list" where
  "relayMethods [] = []"
| "relayMethods (ProxyPosted q # es) = px_method q # relayMethods es"
| "relayMethods (XhrSent r # es) = relayMethods es"

text \<open>
  The environment of one upload or delete: \<open>Date.now()\<close>, \<open>new Date()\<close>, the outcome of
  the direct request, the kernel token of the settings and the outcome of the relay.
\<close>

record env =
  clock :: nat
  today :: Date
  xhrSend :: "http_request \<Rightarrow> xhr_outcome"
  siyuanToken :: string
  forwardProxy :: "proxy_request \<Rightarrow> proxy_outcome"

text \<open>The errors the service throws; the messages of the source are the constructors.\<close>

datatype error =
    NotEnabled
  | ConfigIncomplete
  | UploadHttpError nat string
  | UploadCancelled
  | ProxyTokenMissing
  | ProxyFailed string
  | ProxyFetchRejected string
  | DeleteHttpError nat string
  | DeleteNetworkError

text \<open>
  \<open>uploadViaForwardProxy\<close>. The loop over chunks of 32768 bytes appends the characters
  of every slice in order, so \<open>binary\<close> is the string of the bytes of the file. The
  progress callback is absent in the model.
\<close>

definition uploadViaForwardProxy ::
  "platform \<Rightarrow> S3Config \<Rightarrow> env \<Rightarrow> File \<Rightarrow> string \<Rightarrow> (string \<times> string) list
     \<Rightarrow> (error + string) \<times> net_event list" where
  "uploadViaForwardProxy pf cfg ev file key originalHeaders =
     (let ep = stripScheme (endpoint cfg);
          url = ''https://'' @ bucket cfg @ ''.'' @ ep @ ''/'' @ key;
          base64Payload = btoa pf (bytes file);
          safeHeaders = filter (\<lambda>h. toLowerCase (fst h) \<noteq> ''host'') originalHeaders;
          configToken = siyuanToken ev
      in if configToken = [] then (Inl ProxyTokenMissing, [])
         else
           (let request = \<lparr>px_url = url, px_method = ''PUT'', px_headers = safeHeaders,
                           px_payload = base64Payload,
                           px_meta = (key, fsize file,
                             if ftype file = [] then guessContentType (fname file) else ftype file)\<rparr>;
                sent = [ProxyPosted request];
                finalUrl = (case customDomain cfg of
                              None \<Rightarrow> url
                            | Some d \<Rightarrow>
                                if d = [] then url else stripTrailingSlash d @ ''/'' @ key)
            in case forwardProxy ev request of
                 FetchRejected m \<Rightarrow> (Inl (ProxyFetchRejected m), sent)
               | Responded resp \<Rightarrow>
                   (let ct = orElse (resp_contentType resp) []
                    in if str_includes ct ''application/json''
                       then (if \<not> resp_ok resp
                                \<or> (result_code resp \<noteq> CodeUndefined \<and> result_code resp \<noteq> CodeNumber 0)
                             then (Inl (ProxyFailed (orElse (result_msg resp)
                                          (''HTTP '' @ toString10 (resp_status resp)))), sent)
                             else (Inr finalUrl, sent))
                       else if \<not> resp_ok resp
                       then (Inl (ProxyFailed (''HTTP '' @ toString10 (resp_status resp))), sent)
                       else (Inr finalUrl, sent))))"

text \<open>
  The request that \<open>performUpload\<close> sends (its \<open>url\<close> and \<open>headers\<close>, with the file
  as the body), and the one of \<open>performDelete\<close>.
\<close>

definition putRequest :: "platform \<Rightarrow> S3Config \<Rightarrow> env \<Rightarrow> File \<Rightarrow> string \<Rightarrow> http_request" where
  "putRequest pf cfg ev file key =
     (let ep = stripScheme (endpoint cfg);
          url = ''https://'' @ bucket cfg @ ''.'' @ ep @ ''/'' @ key;
          ctype = (if ftype file = [] then guessContentType (fname file) else ftype file);
          headers = (if (case provider cfg of None \<Rightarrow> aws | Some p \<Rightarrow> p) = oss
                     then generateOssHeaders pf cfg (today ev) ''PUT'' key ctype
                     else generateSignedHeaders pf cfg (today ev) ''PUT'' key ctype (fsize file))
      in \<lparr>req_method = ''PUT'', req_url = url, req_headers = headers, req_body = bytes file\<rparr>)"

definition deleteRequest :: "platform \<Rightarrow> S3Config \<Rightarrow> env \<Rightarrow> string \<Rightarrow> http_request" where
  "deleteRequest pf cfg ev key =
     (let ep = stripScheme (endpoint cfg);
          url = ''https://'' @ bucket cfg @ ''.'' @ ep @ ''/'' @ key;
          headers = (if (case provider cfg of None \<Rightarrow> aws | Some p \<Rightarrow> p) = oss
                     then generateOssHeaders pf cfg (today ev) ''DELETE'' key []
                     else generateSignedHeaders pf cfg (today ev) ''DELETE'' key [] 0)
      in \<lparr>req_method = ''DELETE'', req_url = url, req_headers = headers, req_body = []\<rparr>)"

definition performUpload ::
  "platform \<Rightarrow> S3Config \<Rightarrow> env \<Rightarrow> File \<Rightarrow> string \<Rightarrow> (error + string) \<times> net_event list" where
  "performUpload pf cfg ev file key =
     (let request = putRequest pf cfg ev file key;
          url = req_url request;
          headers = req_headers request
      in case xhrSend ev request of
           Load status responseText \<Rightarrow>
             (if 200 \<le> status \<and> status < 300
              then (case customDomain cfg of
                      None \<Rightarrow> (Inr url, [XhrSent request])
                    | Some d \<Rightarrow>
                        if d = [] then (Inr url, [XhrSent request])
                        else (Inr (stripTrailingSlash d @ ''/'' @ key), [XhrSent request]))
              else (Inl (UploadHttpError status responseText), [XhrSent request]))
         | NetworkError \<Rightarrow>
             (case uploadViaForwardProxy pf cfg ev file key headers of
                (r, sent) \<Rightarrow> (r, XhrSent request # sent))
         | Aborted \<Rightarrow> (Inl UploadCancelled, [XhrSent request]))"

text \<open>
  \<open>performDelete\<close> listens to \<open>load\<close> and \<open>error\<close> only: after an \<open>abort\<close> its promise
  never settles, which is the result \<open>None\<close>.
\<close>

definition performDelete ::
  "platform \<Rightarrow> S3Config \<Rightarrow> env \<Rightarrow> string \<Rightarrow> (error + unit) option \<times> net_event list" where
  "performDelete pf cfg ev key =
     (let request = deleteRequest pf cfg ev key
      in case xhrSend ev request of
           Load status responseText \<Rightarrow>
             (if 200 \<le> status \<and> status < 300 then (Some (Inr ()), [XhrSent request])
              else if status = 404 then (Some (Inr ()), [XhrSent request])
              else (Some (Inl (DeleteHttpError status responseText)), [XhrSent request]))
         | NetworkError \<Rightarrow> (Some (Inl DeleteNetworkError), [XhrSent request])
         | Aborted \<Rightarrow> (None, [XhrSent request]))"

definition deleteFile ::
  "platform \<Rightarrow> S3Config \<Rightarrow> env \<Rightarrow> string \<Rightarrow> (error + unit) option \<times> net_event list" where
  "deleteFile pf cfg ev key =
     (if \<not> enabled cfg then (Some (Inl NotEnabled), [])
      else if \<not> validateConfig cfg then (Some (Inl ConfigIncomplete), [])
      else performDelete pf cfg ev key)"

subsection \<open>Uploading one file and a batch\<close>

text \<open>The local constant \<open>s3Key\<close> of \<open>uploadFile\<close>.\<close>

definition uploadKey :: "platform \<Rightarrow> S3Config \<Rightarrow> env \<Rightarrow> File \<Rightarrow> string option \<Rightarrow> string" where
  "uploadKey pf cfg ev file precomputedHash =
     (let h = orElse precomputedHash (calculateFileHash pf file);
          timestamp = clock ev;
          ext = getFileExtension (fname file)
      in orElse (pathPrefix cfg) ''siyuan-share'' @ ''/'' @ toString10 timestamp @ ''-'' @ h @ ext)"

definition uploadFile ::
  "platform \<Rightarrow> S3Config \<Rightarrow> env \<Rightarrow> File \<Rightarrow> string \<Rightarrow> string option
     \<Rightarrow> (error + AssetUploadRecord) \<times> net_event list" where
  "uploadFile pf cfg ev file lpath precomputedHash =
     (if \<not> enabled cfg then (Inl NotEnabled, [])
      else if \<not> validateConfig cfg then (Inl ConfigIncomplete, [])
      else
        (let h = orElse precomputedHash (calculateFileHash pf file);
             timestamp = clock ev;
             key = uploadKey pf cfg ev file precomputedHash
         in case performUpload pf cfg ev file key of
              (Inr url, sent) \<Rightarrow>
                (Inr \<lparr>localPath = lpath, s3Key = key, s3Url = url,
                      contentType = (if ftype file = [] then guessContentType (fname file) else ftype file),
                      asize = fsize file, hash = h, uploadedAt = timestamp\<rparr>, sent)
            | (Inl e, sent) \<Rightarrow> (Inl e, sent)))"

text \<open>
  \<open>uploadFiles\<close> returns \<open>results\<close>. The list \<open>errors\<close> goes to \<open>showMessage\<close> when it
  is not empty: the field \<open>notified\<close>. An entry of \<open>errors\<close> is the local path with the
  error, for the string \<open>`${localPath}: ${message}`\<close>. The field \<open>netlog\<close> keeps, for
  every file in turn, its local path and the requests its upload sent. Every file of the
  batch comes with the environment its upload runs in.
\<close>

record batch =
  returned :: "AssetUploadRecord list"
  notified :: "(string \<times> error) list option"
  netlog :: "(string \<times> net_event list) list"

fun uploadFiles_loop ::
  "platform \<Rightarrow> S3Config \<Rightarrow> (File \<times> string \<times> env) list
     \<Rightarrow> AssetUploadRecord list \<Rightarrow> (string \<times> error) list \<Rightarrow> (string \<times> net_event list) list
     \<Rightarrow> AssetUploadRecord list \<times> (string \<times> error) list \<times> (string \<times> net_event list) list" where
  "uploadFiles_loop pf cfg [] results errors lg = (results, errors, lg)"
| "uploadFiles_loop pf cfg ((file, lpath, ev) # rest) results errors lg =
     (case uploadFile pf cfg ev file lpath None of
        (Inr record, sent) \<Rightarrow>
          uploadFiles_loop pf cfg rest (results @ [record]) errors (lg @ [(lpath, sent)])
      | (Inl e, sent) \<Rightarrow>
          uploadFiles_loop pf cfg rest results (errors @ [(lpath, e)]) (lg @ [(lpath, sent)]))"

definition uploadFiles :: "platform \<Rightarrow> S3Config \<Rightarrow> (File \<times> string \<times> env) list \<Rightarrow> batch" where
  "uploadFiles pf cfg files =
     (case uploadFiles_loop pf cfg files [] [] [] of
        (results, errors, lg) \<Rightarrow>
          \<lparr>returned = results,
           notified = (if length errors > 0 then Some errors else None),
           netlog = lg\<rparr>)"

text \<open>
  For comparison with the loop: what every file of a batch gives when it is uploaded on
  its own, collected in the order of the batch.
\<close>

definition batchSuccesses ::
  "platform \<Rightarrow> S3Config \<Rightarrow> (File \<times> string \<times> env) list \<Rightarrow> AssetUploadRecord list" where
  "batchSuccesses pf cfg files =
     concat (map (\<lambda>(file, lpath, ev).
       case fst (uploadFile pf cfg ev file lpath None) of Inr r \<Rightarrow> [r] | Inl e \<Rightarrow> []) files)"

definition batchErrors ::
  "platform \<Rightarrow> S3Config \<Rightarrow> (File \<times> string \<times> env) list \<Rightarrow> (string \<times> error) list" where
  "batchErrors pf cfg files =
     concat (map (\<lambda>(file, lpath, ev).
       case fst (uploadFile pf cfg ev file lpath None) of Inr r \<Rightarrow> [] | Inl e \<Rightarrow> [(lpath, e)]) files)"

definition batchAttempts ::
  "platform \<Rightarrow> S3Config \<Rightarrow> (File \<times> string \<times> env) list \<Rightarrow> (string \<times> net_event list) list" where
  "batchAttempts pf cfg files =
     map (\<lambda>(file, lpath, ev). (lpath, snd (uploadFile pf cfg ev file lpath None))) files"

section \<open>Processing the assets of a document (services/share-service.ts)\<close>

text \<open>
  The part of \<open>processAndUploadAssets\<close> that builds \<open>uploadedAssets\<close>; the rewriting of
  the text with regular expressions is left out, and \<open>assetPaths\<close>, the result of
  \<open>extractAssetPaths\<close>, is an argument. For every path the world gives the file that
  \<open>fetchAssetFile\<close> returns (\<open>null\<close> is \<open>None\<close>) and the environment of its upload.
  The result holds the returned assets, the paths that were fetched and the batch.
\<close>

record world_of_path =
  fetched :: "File option"
  upload_env :: env

record processed =
  out_assets :: "AssetUploadRecord list"
  out_fetches :: "string list"
  out_batch :: "batch option"

fun collectAssets ::
  "mappings \<Rightarrow> (string \<Rightarrow> world_of_path) \<Rightarrow> string list
     \<Rightarrow> AssetUploadRecord list \<Rightarrow> (File \<times> string \<times> env) list \<Rightarrow> string list
     \<Rightarrow> AssetUploadRecord list \<times> (File \<times> string \<times> env) list \<times> string list" where
  "collectAssets ms world [] uploadedAssets filesToUpload fetches =
     (uploadedAssets, filesToUpload, fetches)"
| "collectAssets ms world (assetPath # rest) uploadedAssets filesToUpload fetches =
     (case findAssetByLocalPath ms assetPath of
        Some existingAsset \<Rightarrow>
          collectAssets ms world rest (uploadedAssets @ [existingAsset]) filesToUpload fetches
      | None \<Rightarrow>
          (case fetched (world assetPath) of
             Some file \<Rightarrow>
               collectAssets ms world rest uploadedAssets
                 (filesToUpload @ [(file, assetPath, upload_env (world assetPath))])
                 (fetches @ [assetPath])
           | None \<Rightarrow>
               collectAssets ms world rest uploadedAssets filesToUpload (fetches @ [assetPath])))"

definition processAndUploadAssets ::
  "platform \<Rightarrow> S3Config \<Rightarrow> mappings \<Rightarrow> (string \<Rightarrow> world_of_path) \<Rightarrow> string list \<Rightarrow> processed" where
  "processAndUploadAssets pf cfg ms world assetPaths =
     (if length assetPaths = 0 then \<lparr>out_assets = [], out_fetches = [], out_batch = None\<rparr>
      else
        (case collectAssets ms world assetPaths [] [] [] of
           (uploadedAssets, filesToUpload, fetches) \<Rightarrow>
             (if length filesToUpload > 0
              then (let uploaded = uploadFiles pf cfg filesToUpload
                    in \<lparr>out_assets = uploadedAssets @ returned uploaded, out_fetches = fetches,
                        out_batch = Some uploaded\<rparr>)
              else \<lparr>out_assets = uploadedAssets, out_fetches = fetches, out_batch = None\<rparr>)))"

section \<open>Sample inputs\<close>

text \<open>
  A platform whose digest repeats the length of its input 32 times, for evaluating the
  code on concrete inputs; a configuration, a date, a file of ten bytes and environments
  in which the direct request gets a fixed outcome.
\<close>

definition samplePlatform :: platform where
  "samplePlatform =
     \<lparr>digestSHA256 = (\<lambda>bs. replicate 32 (of_nat (length bs))),
      signHmacSHA256 = (\<lambda>k m. replicate 32 (of_nat (length k + length m))),
      signHmacSHA1 = (\<lambda>k m. replicate 20 (of_nat (length k + length m))),
      btoa = (\<lambda>bs. replicate (length bs) (CHR ''A'')),
      encodeURIComponent = (\<lambda>s. s)\<rparr>"

definition sampleConfig :: S3Config where
  "sampleConfig =
     \<lparr>enabled = True, endpoint = ''https://s3.example.com'', region = ''us-east-1'',
      bucket = ''b'', accessKeyId = ''AKID'', secretAccessKey = ''secret'',
      customDomain = None, pathPrefix = Some ''p'', provider = None\<rparr>"

definition sampleDate :: Date where
  "sampleDate =
     \<lparr>getUTCFullYear = 2024, getUTCMonth = 0, getUTCDate = 2, getUTCHours = 3,
      getUTCMinutes = 4, getUTCSeconds = 5, toUTCString = ''Tue, 02 Jan 2024 03:04:05 GMT''\<rparr>"

definition sampleFile :: File where
  "sampleFile = \<lparr>fname = ''a.png'', ftype = ''image/png'', bytes = replicate 10 1\<rparr>"

definition sampleEnv :: "xhr_outcome \<Rightarrow> env" where
  "sampleEnv outcome =
     \<lparr>clock = 123, today = sampleDate, xhrSend = (\<lambda>r. outcome), siyuanToken = ''token'',
      forwardProxy = (\<lambda>r. Responded \<lparr>resp_ok = True, resp_status = 200,
         resp_contentType = Some ''application/json'', result_code = CodeNumber 0,
         result_msg = None\<rparr>)\<rparr>"

definition sampleWorld :: "string \<Rightarrow> world_of_path" where
  "sampleWorld p = \<lparr>fetched = Some sampleFile, upload_env = sampleEnv (Load 200 [])\<rparr>"

section \<open>Properties of the dedup index\<close>

lemma update_cases:
  "x \<in> set (AList.update k v al) \<Longrightarrow> x = (k, v) \<or> x \<in> set al"
  by (induction al) (auto split: if_splits)

lemma delete_subset: "x \<in> set (AList.delete k al) \<Longrightarrow> x \<in> set al"
  by (simp add: AList.delete_eq)

lemma uniqueDocs_update:
  "uniqueDocs ms \<Longrightarrow> docId m = k \<Longrightarrow> uniqueDocs (AList.update k m ms)"
  unfolding uniqueDocs_def list_all_iff
  by (auto simp: distinct_update dest!: update_cases)

lemma uniqueDocs_delete: "uniqueDocs ms \<Longrightarrow> uniqueDocs (AList.delete k ms)"
  unfolding uniqueDocs_def list_all_iff
  by (auto simp: distinct_delete dest!: delete_subset)

lemma noEmpty_update:
  "noEmptyMappings ms \<Longrightarrow> assets m \<noteq> [] \<Longrightarrow> noEmptyMappings (AList.update k m ms)"
  unfolding noEmptyMappings_def list_all_iff
  by (auto dest!: update_cases)

lemma noEmpty_delete: "noEmptyMappings ms \<Longrightarrow> noEmptyMappings (AList.delete k ms)"
  unfolding noEmptyMappings_def list_all_iff
  by (auto dest!: delete_subset)

lemma map_of_uniqueDocs:
  "uniqueDocs ms \<Longrightarrow> map_of ms k = Some m \<Longrightarrow> docId m = k"
  unfolding uniqueDocs_def list_all_iff
  by (auto dest!: map_of_SomeD)

lemma map_of_noEmpty:
  "noEmptyMappings ms \<Longrightarrow> map_of ms k = Some m \<Longrightarrow> assets m \<noteq> []"
  unfolding noEmptyMappings_def list_all_iff
  by (auto dest!: map_of_SomeD)

lemma removeAssets_step_inv:
  assumes "uniqueDocs (fst st)" "noEmptyMappings (fst st)"
    and "docId (snd e) = fst e" "assets (snd e) \<noteq> []"
  shows "uniqueDocs (fst (removeAssets_step now keys st e))
       \<and> noEmptyMappings (fst (removeAssets_step now keys st e))"
proof -
  let ?kept = "filter (\<lambda>a. \<not> List.member keys (s3Key a)) (assets (snd e))"
  have le: "length ?kept \<le> length (assets (snd e))" by (rule length_filter_le)
  show ?thesis
  proof (cases "length ?kept < length (assets (snd e))")
    case True
    then show ?thesis using assms
      by (simp add: removeAssets_step_def Let_def uniqueDocs_update uniqueDocs_delete
          noEmpty_update noEmpty_delete)
  next
    case False
    with le have "length ?kept = length (assets (snd e))" by linarith
    with assms(4) have "?kept \<noteq> []" by (metis length_0_conv)
    with False show ?thesis using assms
      by (simp add: removeAssets_step_def Let_def uniqueDocs_update noEmpty_update)
  qed
qed


lemma removeAssets_fold_inv:
  "uniqueDocs (fst st) \<Longrightarrow> noEmptyMappings (fst st)
   \<Longrightarrow> list_all (\<lambda>e. docId (snd e) = fst e \<and> assets (snd e) \<noteq> []) es
   \<Longrightarrow> uniqueDocs (fst (foldl (removeAssets_step now keys) st es))
     \<and> noEmptyMappings (fst (foldl (removeAssets_step now keys) st es))"
proof (induction es arbitrary: st)
  case Nil
  then show ?case by simp
next
  case (Cons e es)
  from Cons.prems have e: "docId (snd e) = fst e" "assets (snd e) \<noteq> []"
    and es: "list_all (\<lambda>e. docId (snd e) = fst e \<and> assets (snd e) \<noteq> []) es"
    by simp_all
  from removeAssets_step_inv [OF Cons.prems(1,2) e]
  have "uniqueDocs (fst (removeAssets_step now keys st e))"
    "noEmptyMappings (fst (removeAssets_step now keys st e))" by simp_all
  from Cons.IH [OF this es] show ?case by simp
qed

lemma removeAssets_inv:
  assumes "uniqueDocs ms" "noEmptyMappings ms"
  shows "uniqueDocs (fst (removeAssets now ms keys)) \<and> noEmptyMappings (fst (removeAssets now ms keys))"
proof -
  from assms have "list_all (\<lambda>e. docId (snd e) = fst e \<and> assets (snd e) \<noteq> []) ms"
    by (simp add: uniqueDocs_def noEmptyMappings_def list_all_iff)
  with assms show ?thesis
    unfolding removeAssets_def by (intro removeAssets_fold_inv) simp_all
qed

lemma removeMappingByShareId_fold_inv:
  "uniqueDocs ms \<Longrightarrow> noEmptyMappings ms
   \<Longrightarrow> uniqueDocs (foldl (removeMappingByShareId_step sid) ms es)
     \<and> noEmptyMappings (foldl (removeMappingByShareId_step sid) ms es)"
  by (induction es arbitrary: ms)
     (simp_all add: removeMappingByShareId_step_def uniqueDocs_delete noEmpty_delete)

lemma addOrUpdateMapping_unique:
  "uniqueDocs ms \<Longrightarrow> uniqueDocs (addOrUpdateMapping now ms d s as)"
proof (cases "map_of ms d")
  case None
  assume "uniqueDocs ms"
  with None show ?thesis by (simp add: addOrUpdateMapping_def uniqueDocs_update)
next
  case (Some m)
  assume u: "uniqueDocs ms"
  from u Some have "docId m = d" by (rule map_of_uniqueDocs)
  with Some u show ?thesis by (simp add: addOrUpdateMapping_def uniqueDocs_update)
qed

lemma addOrUpdateMapping_noEmpty:
  "noEmptyMappings ms \<Longrightarrow> as \<noteq> [] \<Longrightarrow> noEmptyMappings (addOrUpdateMapping now ms d s as)"
  by (cases "map_of ms d") (simp_all add: addOrUpdateMapping_def noEmpty_update)

lemma removeAssetFromDoc_inv:
  assumes "uniqueDocs ms" "noEmptyMappings ms"
  shows "uniqueDocs (fst (removeAssetFromDoc now ms d k))
       \<and> noEmptyMappings (fst (removeAssetFromDoc now ms d k))"
proof (cases "map_of ms d")
  case None
  with assms show ?thesis by (simp add: removeAssetFromDoc_def)
next
  case (Some m)
  from assms Some have m: "docId m = d" "assets m \<noteq> []"
    by (auto dest: map_of_uniqueDocs map_of_noEmpty)
  let ?kept = "filter (\<lambda>a. s3Key a \<noteq> k) (assets m)"
  show ?thesis
  proof (cases "length ?kept = length (assets m)")
    case True
    with m have "?kept \<noteq> []" by (metis length_0_conv)
    with True Some m assms show ?thesis
      by (simp add: removeAssetFromDoc_def Let_def uniqueDocs_update noEmpty_update)
  next
    case False
    with Some m assms show ?thesis
      by (simp add: removeAssetFromDoc_def Let_def uniqueDocs_update noEmpty_update
          uniqueDocs_delete noEmpty_delete)
  qed
qed

lemma removeAssetsByFilter_inv:
  assumes "uniqueDocs ms" "noEmptyMappings ms"
  shows "uniqueDocs (fst (removeAssetsByFilter now ms flt))
       \<and> noEmptyMappings (fst (removeAssetsByFilter now ms flt))"
  using assms removeAssets_inv [OF assms]
  by (simp add: removeAssetsByFilter_def Let_def)


text \<open>
  C3, as amended. From an index with one mapping per document id and no empty mapping,
  every operation of the manager gives an index with one mapping per document id;
  \<open>removeAssetFromDoc\<close>, \<open>removeAssets\<close>, \<open>removeAssetsByFilter\<close>,
  \<open>removeMapping\<close> and \<open>removeMappingByShareId\<close> leave no empty mapping, and
  \<open>addOrUpdateMapping\<close> leaves none when the asset list it is given is not empty.
\<close>

theorem index_invariant:
  assumes "uniqueDocs ms" and "noEmptyMappings ms"
  shows "uniqueDocs (addOrUpdateMapping now ms d s as)
       \<and> (as \<noteq> [] \<longrightarrow> noEmptyMappings (addOrUpdateMapping now ms d s as))
       \<and> uniqueDocs (fst (removeAssetFromDoc now ms d k))
       \<and> noEmptyMappings (fst (removeAssetFromDoc now ms d k))
       \<and> uniqueDocs (fst (removeAssets now ms keys))
       \<and> noEmptyMappings (fst (removeAssets now ms keys))
       \<and> uniqueDocs (fst (removeAssetsByFilter now ms flt))
       \<and> noEmptyMappings (fst (removeAssetsByFilter now ms flt))
       \<and> uniqueDocs (removeMapping ms d) \<and> noEmptyMappings (removeMapping ms d)
       \<and> uniqueDocs (removeMappingByShareId ms s)
       \<and> noEmptyMappings (removeMappingByShareId ms s)"
  using assms addOrUpdateMapping_unique [OF assms(1)] addOrUpdateMapping_noEmpty [OF assms(2)]
    removeAssetFromDoc_inv [OF assms] removeAssets_inv [OF assms]
    removeAssetsByFilter_inv [OF assms] removeMappingByShareId_fold_inv [OF assms]
  by (simp add: removeMapping_def removeMappingByShareId_def uniqueDocs_delete noEmpty_delete)

theorem index_invariant_witness:
  "uniqueDocs sampleIndex \<and> noEmptyMappings sampleIndex \<and> [sampleAsset] \<noteq> []
   \<and> uniqueDocs (addOrUpdateMapping 5 sampleIndex ''doc1'' ''share2'' [sampleAsset])
   \<and> noEmptyMappings (addOrUpdateMapping 5 sampleIndex ''doc1'' ''share2'' [sampleAsset])
   \<and> noEmptyMappings (fst (removeAssets 5 sampleIndex [s3Key sampleAsset]))
   \<and> noEmptyMappings (fst (removeAssetFromDoc 5 sampleIndex ''doc1'' (s3Key sampleAsset)))"
proof -
  have u: "uniqueDocs sampleIndex" by (simp add: uniqueDocs_def sampleIndex_def)
  have n: "noEmptyMappings sampleIndex" by (simp add: noEmptyMappings_def sampleIndex_def)
  from index_invariant [OF u n, of 5 "''doc1''" "''share2''" "[sampleAsset]"
      "s3Key sampleAsset" "[s3Key sampleAsset]"] u n
  show ?thesis by blast
qed

text \<open>
  C3, as stated, fails: \<open>addOrUpdateMapping\<close> with an empty asset list stores a mapping
  whose asset collection is empty.
\<close>

theorem addOrUpdateMapping_empty_counterexample:
  "\<not> noEmptyMappings (addOrUpdateMapping 1700000000001 sampleIndex ''doc2'' ''share2'' [])"
  by (simp add: noEmptyMappings_def addOrUpdateMapping_def sampleIndex_def)

text \<open>
  C2, as amended. \<open>findAssetByHash\<close> returns the first recorded asset, in the order of
  the mappings and of their asset lists, whose \<open>hash\<close> is the fingerprint asked for; the
  size of an asset takes no part in the lookup.
\<close>

theorem findAssetByHash_first_match:
  "findAssetByHash ms h = find (\<lambda>a. hash a = h) (concat (map (\<lambda>e. assets (snd e)) ms))"
proof (induction ms)
  case Nil
  show ?case by simp
next
  case (Cons e ms)
  have app: "\<And>P xs ys. find P (xs @ ys) = (case find P xs of Some x \<Rightarrow> Some x | None \<Rightarrow> find P ys)"
    subgoal for P xs ys by (induction xs) simp_all
    done
  show ?case by (simp add: app Cons.IH split: option.splits)
qed

text \<open>
  C2, as stated, fails: the index records an asset of 10 bytes; the lookup with its
  fingerprint returns that record, also when it is made for a blob of 20 bytes, where a
  lookup that compared the sizes would find nothing.
\<close>

theorem findAssetByHash_size_counterexample:
  "findAssetByHash sampleIndex ''0123456789abcdef'' = Some sampleAsset
   \<and> asize sampleAsset = 10
   \<and> findAssetByHashAndSize sampleIndex ''0123456789abcdef'' 20 = None"
  by (simp add: sampleIndex_def sampleAsset_def)

section \<open>Properties of the upload service\<close>

lemma toString16_digit: "n < 16 \<Longrightarrow> toString16 n = [''0123456789abcdef'' ! n]"
  by (simp add: toString16.simps)

lemma toString16_two:
  "16 \<le> n \<Longrightarrow> n < 256 \<Longrightarrow>
   toString16 n = [''0123456789abcdef'' ! (n div 16), ''0123456789abcdef'' ! (n mod 16)]"
proof -
  assume a: "16 \<le> n" "n < 256"
  then have "n div 16 < 16" by simp
  then have "toString16 (n div 16) = [''0123456789abcdef'' ! (n div 16)]" by (rule toString16_digit)
  with a show ?thesis by (subst toString16.simps) simp
qed

lemma byteHex_two:
  "byteHex b = [''0123456789abcdef'' ! (unat b div 16), ''0123456789abcdef'' ! (unat b mod 16)]"
proof -
  have lt: "unat b < 256" using unsigned_less [of b] by simp
  show ?thesis
  proof (cases "unat b < 16")
    case True
    then show ?thesis by (simp add: byteHex_def toString16_digit)
  next
    case False
    then have "16 \<le> unat b" by simp
    from toString16_two [OF this lt] show ?thesis by (simp add: byteHex_def)
  qed
qed

lemma byteHex_fun:
  "byteHex = (\<lambda>b. [''0123456789abcdef'' ! (unat b div 16), ''0123456789abcdef'' ! (unat b mod 16)])"
  by (rule ext) (rule byteHex_two)

lemma length_hexOfBytes: "length (hexOfBytes bs) = 2 * length bs"
  by (induction bs) (simp_all add: hexOfBytes_def byteHex_two)

lemma hexDigit_mem: "n < 16 \<Longrightarrow> ''0123456789abcdef'' ! n \<in> set ''0123456789abcdef''"
  by (rule nth_mem) simp

lemma set_hexOfBytes: "set (hexOfBytes bs) \<subseteq> set ''0123456789abcdef''"
proof (induction bs)
  case Nil
  show ?case by (simp add: hexOfBytes_def)
next
  case (Cons b bs)
  have "unat b < 256" using unsigned_less [of b] by simp
  then have "unat b div 16 < 16" by simp
  then have 1: "''0123456789abcdef'' ! (unat b div 16) \<in> set ''0123456789abcdef''"
    by (rule hexDigit_mem)
  have 2: "''0123456789abcdef'' ! (unat b mod 16) \<in> set ''0123456789abcdef''"
    by (rule hexDigit_mem) simp
  from Cons 1 2 show ?case
    unfolding hexOfBytes_def by (simp only: list.map concat.simps set_append byteHex_two) auto
qed

lemma take_hexOfBytes: "take (2 * n) (hexOfBytes bs) = hexOfBytes (take n bs)"
proof (induction bs arbitrary: n)
  case Nil
  show ?case by (simp add: hexOfBytes_def)
next
  case (Cons b bs)
  show ?case
  proof (cases n)
    case 0
    then show ?thesis by (simp add: hexOfBytes_def)
  next
    case (Suc m)
    with Cons [of m] show ?thesis by (simp add: hexOfBytes_def byteHex_two)
  qed
qed


text \<open>
  C7. For a digest of 32 bytes, \<open>calculateFileHash\<close> returns the two lowercase
  hexadecimal digits of each of the first 8 bytes of the digest of the bytes of the file:
  16 characters. Files with the same bytes get the same fingerprint.
\<close>

theorem calculateFileHash_fingerprint:
  assumes "length (digestSHA256 pf (bytes file)) = 32"
  shows "calculateFileHash pf file =
           concat (map (\<lambda>b. [''0123456789abcdef'' ! (unat b div 16),
                              ''0123456789abcdef'' ! (unat b mod 16)])
                       (take 8 (digestSHA256 pf (bytes file))))
       \<and> length (calculateFileHash pf file) = 16
       \<and> set (calculateFileHash pf file) \<subseteq> set ''0123456789abcdef''
       \<and> (bytes file' = bytes file \<longrightarrow> calculateFileHash pf file' = calculateFileHash pf file)"
proof -
  have t: "calculateFileHash pf file = hexOfBytes (take 8 (digestSHA256 pf (bytes file)))"
    using take_hexOfBytes [of 8 "digestSHA256 pf (bytes file)"]
    by (simp add: calculateFileHash_def)
  have 1: "hexOfBytes (take 8 (digestSHA256 pf (bytes file))) =
      concat (map (\<lambda>b. [''0123456789abcdef'' ! (unat b div 16),
                              ''0123456789abcdef'' ! (unat b mod 16)])
                       (take 8 (digestSHA256 pf (bytes file))))"
    unfolding hexOfBytes_def by (simp only: byteHex_fun)
  have 2: "length (calculateFileHash pf file) = 16"
    using assms by (simp only: t length_hexOfBytes) simp
  have 3: "set (calculateFileHash pf file) \<subseteq> set ''0123456789abcdef''"
    unfolding t by (rule set_hexOfBytes)
  have 4: "bytes file' = bytes file \<longrightarrow> calculateFileHash pf file' = calculateFileHash pf file"
    by (simp add: calculateFileHash_def)
  from t 1 2 3 4 show ?thesis by (simp only:) 
qed

theorem calculateFileHash_fingerprint_witness:
  "length (digestSHA256 samplePlatform (bytes sampleFile)) = 32
   \<and> length (calculateFileHash samplePlatform sampleFile) = 16
   \<and> calculateFileHash samplePlatform sampleFile = ''0a0a0a0a0a0a0a0a''"
proof -
  have h: "length (digestSHA256 samplePlatform (bytes sampleFile)) = 32"
    by (simp add: samplePlatform_def)
  have v: "calculateFileHash samplePlatform sampleFile = ''0a0a0a0a0a0a0a0a''"
    by code_simp
  from calculateFileHash_fingerprint [OF h, of sampleFile]
  have "length (calculateFileHash samplePlatform sampleFile) = 16" by blast
  with h v show ?thesis by blast
qed

lemma sampleEnv_xhr: "xhrSend (sampleEnv out) r = out"
  by (simp add: sampleEnv_def)

lemma relayMethods_proxy:
  "relayMethods (snd (uploadViaForwardProxy pf cfg ev f key hs)) = [] \<or>
   relayMethods (snd (uploadViaForwardProxy pf cfg ev f key hs)) = [''PUT'']"
  by (simp add: uploadViaForwardProxy_def Let_def split: proxy_outcome.splits)

lemma relayMethods_upload:
  "relayMethods (snd (performUpload pf cfg ev f k)) = [] \<or>
   relayMethods (snd (performUpload pf cfg ev f k)) = [''PUT'']"
proof (cases "xhrSend ev (putRequest pf cfg ev f k)")
  case (Load st body)
  then show ?thesis by (simp add: performUpload_def Let_def split: option.splits)
next
  case NetworkError
  with relayMethods_proxy [of pf cfg ev f k "req_headers (putRequest pf cfg ev f k)"]
  show ?thesis by (simp add: performUpload_def Let_def case_prod_beta)
next
  case Aborted
  then show ?thesis by (simp add: performUpload_def Let_def)
qed

lemma relayMethods_upload_direct:
  "xhrSend ev (putRequest pf cfg ev f k) \<noteq> NetworkError \<Longrightarrow>
   relayMethods (snd (performUpload pf cfg ev f k)) = []"
  by (cases "xhrSend ev (putRequest pf cfg ev f k)")
     (simp_all add: performUpload_def Let_def split: option.splits)

lemma relayMethods_delete: "relayMethods (snd (performDelete pf cfg ev key)) = []"
  by (cases "xhrSend ev (deleteRequest pf cfg ev key)")
     (simp_all add: performDelete_def Let_def)

text \<open>
  C8. When the DELETE request gets an HTTP response, \<open>performDelete\<close> resolves for a
  status from 200 to 299 and for the status 404 alike, and rejects for every other status
  with an error that carries the status and the response text.
\<close>

theorem performDelete_status:
  assumes "xhrSend ev (deleteRequest pf cfg ev key) = Load status body"
  shows "(200 \<le> status \<and> status < 300 \<longrightarrow> fst (performDelete pf cfg ev key) = Some (Inr ()))
       \<and> (status = 404 \<longrightarrow> fst (performDelete pf cfg ev key) = Some (Inr ()))
       \<and> (\<not> (200 \<le> status \<and> status < 300) \<and> status \<noteq> 404 \<longrightarrow>
            fst (performDelete pf cfg ev key) = Some (Inl (DeleteHttpError status body)))"
  using assms by (simp add: performDelete_def Let_def)

theorem performDelete_status_witness:
  "xhrSend (sampleEnv (Load 404 ''NoSuchKey''))
     (deleteRequest samplePlatform sampleConfig (sampleEnv (Load 404 ''NoSuchKey'')) ''p/123-abc.png'')
     = Load 404 ''NoSuchKey''
   \<and> fst (performDelete samplePlatform sampleConfig (sampleEnv (Load 404 ''NoSuchKey'')) ''p/123-abc.png'')
     = Some (Inr ())
   \<and> xhrSend (sampleEnv (Load 204 []))
     (deleteRequest samplePlatform sampleConfig (sampleEnv (Load 204 [])) ''p/123-abc.png'')
     = Load 204 []
   \<and> fst (performDelete samplePlatform sampleConfig (sampleEnv (Load 204 [])) ''p/123-abc.png'')
     = Some (Inr ())
   \<and> xhrSend (sampleEnv (Load 403 ''AccessDenied''))
     (deleteRequest samplePlatform sampleConfig (sampleEnv (Load 403 ''AccessDenied'')) ''p/123-abc.png'')
     = Load 403 ''AccessDenied''
   \<and> fst (performDelete samplePlatform sampleConfig (sampleEnv (Load 403 ''AccessDenied'')) ''p/123-abc.png'')
     = Some (Inl (DeleteHttpError 403 ''AccessDenied''))"
proof -
  have a: "\<And>out r. xhrSend (sampleEnv out) r = out" by (simp add: sampleEnv_def)
  have 1: "fst (performDelete samplePlatform sampleConfig (sampleEnv (Load 404 ''NoSuchKey'')) ''p/123-abc.png'')
      = Some (Inr ())"
    using performDelete_status [OF a, where status = 404] by simp
  have 2: "fst (performDelete samplePlatform sampleConfig (sampleEnv (Load 204 [])) ''p/123-abc.png'')
      = Some (Inr ())"
    using performDelete_status [OF a, where status = 204] by simp
  have 3: "fst (performDelete samplePlatform sampleConfig (sampleEnv (Load 403 ''AccessDenied'')) ''p/123-abc.png'')
      = Some (Inl (DeleteHttpError 403 ''AccessDenied''))"
    using performDelete_status [OF a, where status = 403] by simp
  from a 1 2 3 show ?thesis by (simp only: simp_thms)
qed

text \<open>
  C10. \<open>performDelete\<close> and \<open>deleteFile\<close> send nothing to the relay; on a transport
  error \<open>performDelete\<close> rejects with the network error, having sent the one direct
  request. \<open>performUpload\<close> sends to the relay only after a transport error of its
  direct request, at most once, and the relayed request is a PUT.
\<close>

theorem delete_never_relayed:
  "relayMethods (snd (performDelete pf cfg ev key)) = []
   \<and> relayMethods (snd (deleteFile pf cfg ev key)) = []
   \<and> (xhrSend ev (deleteRequest pf cfg ev key) = NetworkError \<longrightarrow>
        performDelete pf cfg ev key
          = (Some (Inl DeleteNetworkError), [XhrSent (deleteRequest pf cfg ev key)]))
   \<and> (xhrSend ev (putRequest pf cfg ev f k) \<noteq> NetworkError \<longrightarrow>
        relayMethods (snd (performUpload pf cfg ev f k)) = [])
   \<and> (relayMethods (snd (performUpload pf cfg ev f k)) = []
        \<or> relayMethods (snd (performUpload pf cfg ev f k)) = [''PUT''])"
proof -
  have 1: "relayMethods (snd (deleteFile pf cfg ev key)) = []"
    using relayMethods_delete [of pf cfg ev key] by (simp add: deleteFile_def)
  have 2: "xhrSend ev (deleteRequest pf cfg ev key) = NetworkError \<longrightarrow>
        performDelete pf cfg ev key
          = (Some (Inl DeleteNetworkError), [XhrSent (deleteRequest pf cfg ev key)])"
    by (simp add: performDelete_def Let_def)
  from relayMethods_delete 1 2 relayMethods_upload relayMethods_upload_direct
  show ?thesis by blast
qed

theorem delete_never_relayed_witness:
  "xhrSend (sampleEnv NetworkError)
      (deleteRequest samplePlatform sampleConfig (sampleEnv NetworkError) ''p/123-abc.png'') = NetworkError
   \<and> fst (performDelete samplePlatform sampleConfig (sampleEnv NetworkError) ''p/123-abc.png'')
        = Some (Inl DeleteNetworkError)
   \<and> relayMethods (snd (performDelete samplePlatform sampleConfig (sampleEnv NetworkError) ''p/123-abc.png'')) = []
   \<and> xhrSend (sampleEnv (Load 200 []))
        (putRequest samplePlatform sampleConfig (sampleEnv (Load 200 [])) sampleFile ''p/123-abc.png'') \<noteq> NetworkError
   \<and> relayMethods (snd (performUpload samplePlatform sampleConfig (sampleEnv (Load 200 [])) sampleFile ''p/123-abc.png'')) = []
   \<and> relayMethods (snd (performUpload samplePlatform sampleConfig (sampleEnv NetworkError) sampleFile ''p/123-abc.png'')) = [''PUT'']"
proof -
  have r: "relayMethods (snd (performUpload samplePlatform sampleConfig (sampleEnv NetworkError) sampleFile ''p/123-abc.png'')) = [''PUT'']"
    by (simp add: performUpload_def uploadViaForwardProxy_def Let_def sampleEnv_def
        sampleConfig_def split: prod.splits)
  have x: "xhrSend (sampleEnv (Load 200 []))
        (putRequest samplePlatform sampleConfig (sampleEnv (Load 200 [])) sampleFile ''p/123-abc.png'') \<noteq> NetworkError"
    by (simp add: sampleEnv_xhr)
  from delete_never_relayed [of samplePlatform sampleConfig "sampleEnv NetworkError" "''p/123-abc.png''"
      sampleFile "''p/123-abc.png''"] sampleEnv_xhr [of NetworkError]
  have d: "fst (performDelete samplePlatform sampleConfig (sampleEnv NetworkError) ''p/123-abc.png'')
        = Some (Inl DeleteNetworkError)"
    "relayMethods (snd (performDelete samplePlatform sampleConfig (sampleEnv NetworkError) ''p/123-abc.png'')) = []"
    by simp_all
  from delete_never_relayed [of samplePlatform sampleConfig "sampleEnv (Load 200 [])" "''p/123-abc.png''"
      sampleFile "''p/123-abc.png''"] x
  have u: "relayMethods (snd (performUpload samplePlatform sampleConfig (sampleEnv (Load 200 [])) sampleFile ''p/123-abc.png'')) = []"
    by blast
  from r x d u sampleEnv_xhr [of NetworkError] show ?thesis by (simp only: simp_thms)
qed

text \<open>
  C9. The string-to-sign of the \<open>oss\<close> signer is the method, an empty content-MD5, the
  content type, the date string of \<open>toUTCString\<close> and the resource \<open>/bucket/key\<close>,
  joined by newlines; the signature is \<open>btoa\<close> of one HMAC-SHA1 keyed by the encoded
  secret key; the headers are \<open>Date\<close>, \<open>Content-Type\<close> and \<open>Authorization\<close>, the
  last of the form \<open>OSS accessKeyId:signature\<close>. With the provider \<open>oss\<close> these are
  the headers of the PUT and of the DELETE request.
\<close>

theorem generateOssHeaders_form:
  "ossStringToSign cfg now method key ctype
     = method @ nl @ nl @ ctype @ nl @ toUTCString now @ nl @ ''/'' @ bucket cfg @ ''/'' @ key
   \<and> hmacSha1Base64 pf (secretAccessKey cfg) msg
     = btoa pf (signHmacSHA1 pf (textEncode (secretAccessKey cfg)) (textEncode msg))
   \<and> generateOssHeaders pf cfg now method key ctype
     = [(''Date'', toUTCString now),
        (''Content-Type'', if ctype = [] then ''application/octet-stream'' else ctype),
        (''Authorization'', ''OSS '' @ accessKeyId cfg @ '':'' @
           hmacSha1Base64 pf (secretAccessKey cfg) (ossStringToSign cfg now method key ctype))]
   \<and> map fst (generateOssHeaders pf cfg now method key ctype)
     = [''Date'', ''Content-Type'', ''Authorization'']
   \<and> (provider cfg = Some oss \<longrightarrow>
        req_headers (putRequest pf cfg ev f key)
          = generateOssHeaders pf cfg (today ev) ''PUT'' key
              (if ftype f = [] then guessContentType (fname f) else ftype f)
        \<and> req_headers (deleteRequest pf cfg ev key)
          = generateOssHeaders pf cfg (today ev) ''DELETE'' key [])"
  by (simp add: ossStringToSign_def hmacSha1Base64_def generateOssHeaders_def Let_def
      putRequest_def deleteRequest_def)

theorem generateOssHeaders_form_witness:
  "provider (sampleConfig\<lparr>provider := Some oss\<rparr>) = Some oss
   \<and> req_headers (putRequest samplePlatform (sampleConfig\<lparr>provider := Some oss\<rparr>)
        (sampleEnv NetworkError) sampleFile ''p/123-abc.png'')
     = [(''Date'', ''Tue, 02 Jan 2024 03:04:05 GMT''), (''Content-Type'', ''image/png''),
        (''Authorization'', ''OSS AKID:AAAAAAAAAAAAAAAAAAAA'')]"
proof -
  have p: "provider (sampleConfig\<lparr>provider := Some oss\<rparr>) = Some oss" by simp
  have v: "generateOssHeaders samplePlatform (sampleConfig\<lparr>provider := Some oss\<rparr>) sampleDate
             ''PUT'' ''p/123-abc.png'' ''image/png''
           = [(''Date'', ''Tue, 02 Jan 2024 03:04:05 GMT''), (''Content-Type'', ''image/png''),
              (''Authorization'', ''OSS AKID:AAAAAAAAAAAAAAAAAAAA'')]"
    by code_simp
  from generateOssHeaders_form [where cfg = "sampleConfig\<lparr>provider := Some oss\<rparr>"
      and pf = samplePlatform and ev = "sampleEnv NetworkError" and f = sampleFile
      and key = "''p/123-abc.png''"] p
  have "req_headers (putRequest samplePlatform (sampleConfig\<lparr>provider := Some oss\<rparr>)
        (sampleEnv NetworkError) sampleFile ''p/123-abc.png'')
     = generateOssHeaders samplePlatform (sampleConfig\<lparr>provider := Some oss\<rparr>) (today (sampleEnv NetworkError))
         ''PUT'' ''p/123-abc.png'' (if ftype sampleFile = [] then guessContentType (fname sampleFile) else ftype sampleFile)"
    by blast
  with v p show ?thesis by (simp add: sampleEnv_def sampleFile_def)
qed

lemma req_url_put:
  "req_url (putRequest pf cfg ev f k) = ''https://'' @ bucket cfg @ ''.'' @ stripScheme (endpoint cfg) @ ''/'' @ k"
  by (simp add: putRequest_def Let_def)

lemma uploadKey_clock:
  "clock ev' = clock ev \<Longrightarrow> uploadKey pf cfg ev' f h = uploadKey pf cfg ev f h"
  by (simp add: uploadKey_def)

lemma performUpload_direct_ok:
  assumes "xhrSend ev (putRequest pf cfg ev f k) = Load st body" "200 \<le> st" "st < 300"
  shows "fst (performUpload pf cfg ev f k) =
    Inr (case customDomain cfg of
           None \<Rightarrow> ''https://'' @ bucket cfg @ ''.'' @ stripScheme (endpoint cfg) @ ''/'' @ k
         | Some d \<Rightarrow> if d = [] then ''https://'' @ bucket cfg @ ''.'' @ stripScheme (endpoint cfg) @ ''/'' @ k
                     else stripTrailingSlash d @ ''/'' @ k)"
  using assms by (simp add: performUpload_def Let_def req_url_put split: option.splits)

lemma performUpload_http_error:
  assumes "xhrSend ev (putRequest pf cfg ev f k) = Load st body" "\<not> (200 \<le> st \<and> st < 300)"
  shows "fst (performUpload pf cfg ev f k) = Inl (UploadHttpError st body)"
  using assms by (auto simp add: performUpload_def Let_def)

lemma uploadViaForwardProxy_ok:
  assumes "fst (uploadViaForwardProxy pf cfg ev f k hs) = Inr u"
  shows "u = (case customDomain cfg of
           None \<Rightarrow> ''https://'' @ bucket cfg @ ''.'' @ stripScheme (endpoint cfg) @ ''/'' @ k
         | Some d \<Rightarrow> if d = [] then ''https://'' @ bucket cfg @ ''.'' @ stripScheme (endpoint cfg) @ ''/'' @ k
                     else stripTrailingSlash d @ ''/'' @ k)"
  using assms
  by (auto simp add: uploadViaForwardProxy_def Let_def
      split: if_splits proxy_outcome.splits option.splits)

lemma performUpload_relay:
  assumes "xhrSend ev (putRequest pf cfg ev f k) = NetworkError"
  shows "fst (performUpload pf cfg ev f k)
     = fst (uploadViaForwardProxy pf cfg ev f k (req_headers (putRequest pf cfg ev f k)))"
  using assms by (simp add: performUpload_def Let_def case_prod_beta)

lemma uploadFile_result:
  assumes "validateConfig cfg"
  shows "fst (uploadFile pf cfg ev f lp h) =
    (case fst (performUpload pf cfg ev f (uploadKey pf cfg ev f h)) of
       Inr url \<Rightarrow> Inr \<lparr>localPath = lp, s3Key = uploadKey pf cfg ev f h, s3Url = url,
                      contentType = (if ftype f = [] then guessContentType (fname f) else ftype f),
                      asize = fsize f, hash = orElse h (calculateFileHash pf f), uploadedAt = clock ev\<rparr>
     | Inl e \<Rightarrow> Inl e)"
proof -
  from assms have "enabled cfg" by (simp add: validateConfig_def)
  with assms show ?thesis
    by (simp add: uploadFile_def Let_def case_prod_beta split: sum.splits prod.splits)
qed

lemma uploadFiles_loop_acc:
  "uploadFiles_loop pf cfg files rs es lg =
     (rs @ batchSuccesses pf cfg files, es @ batchErrors pf cfg files, lg @ batchAttempts pf cfg files)"
proof (induction files arbitrary: rs es lg)
  case Nil
  show ?case by (simp add: batchSuccesses_def batchErrors_def batchAttempts_def)
next
  case (Cons x files)
  obtain f lp ev where x: "x = (f, lp, ev)" by (cases x)
  obtain r sent where u: "uploadFile pf cfg ev f lp None = (r, sent)" by (cases "uploadFile pf cfg ev f lp None")
  show ?case
  proof (cases r)
    case (Inl e)
    with x u Cons.IH [of rs "es @ [(lp, e)]" "lg @ [(lp, sent)]"] show ?thesis
      by (simp add: batchSuccesses_def batchErrors_def batchAttempts_def)
  next
    case (Inr a)
    with x u Cons.IH [of "rs @ [a]" es "lg @ [(lp, sent)]"] show ?thesis
      by (simp add: batchSuccesses_def batchErrors_def batchAttempts_def)
  qed
qed

lemma str_includes_json: "str_includes ''application/json'' ''application/json''"
  by code_simp


lemma validate_sample: "validateConfig (sampleConfig\<lparr>customDomain := d\<rparr>)"
  by (simp add: validateConfig_def sampleConfig_def)

lemma uploadKey_sample:
  "uploadKey samplePlatform (sampleConfig\<lparr>customDomain := d\<rparr>) (sampleEnv out) sampleFile None
     = ''p/123-0a0a0a0a0a0a0a0a.png''"
proof -
  have 1: "calculateFileHash samplePlatform sampleFile = ''0a0a0a0a0a0a0a0a''" by code_simp
  have 2: "toString10 123 = ''123''" by code_simp
  have 3: "getFileExtension ''a.png'' = ''.png''" by code_simp
  from 1 2 3 show ?thesis
    by (simp add: uploadKey_def Let_def orElse_def sampleConfig_def sampleEnv_def sampleFile_def)
qed

lemma proxy_sample:
  "fst (uploadViaForwardProxy samplePlatform (sampleConfig\<lparr>customDomain := Some ''https://cdn.example.com/''\<rparr>)
         (sampleEnv out) sampleFile k hs) = Inr (''https://cdn.example.com/'' @ k)"
  using str_includes_json
  by (simp add: uploadViaForwardProxy_def Let_def sampleEnv_def sampleConfig_def orElse_def
      stripTrailingSlash_def)

text \<open>
  C5, as amended. \<open>uploadFiles\<close> attempts every file of the batch in order, whatever
  the files before it did. It returns the records of the files that succeeded; the errors
  of the files that failed, each with its local path, go together into one
  \<open>showMessage\<close> notification and are not part of the returned value.
\<close>

theorem uploadFiles_partial_failure:
  "returned (uploadFiles pf cfg files) = batchSuccesses pf cfg files
   \<and> notified (uploadFiles pf cfg files)
       = (if batchErrors pf cfg files = [] then None else Some (batchErrors pf cfg files))
   \<and> netlog (uploadFiles pf cfg files) = batchAttempts pf cfg files
   \<and> map fst (netlog (uploadFiles pf cfg files)) = map (\<lambda>x. fst (snd x)) files"
  by (simp add: uploadFiles_def uploadFiles_loop_acc batchAttempts_def case_prod_beta)

theorem uploadFiles_partial_failure_witness:
  "returned (uploadFiles samplePlatform sampleConfig
      [(sampleFile, ''assets/a.png'', sampleEnv (Load 403 ''AccessDenied'')),
       (sampleFile, ''assets/b.png'', sampleEnv (Load 200 []))])
    = [\<lparr>localPath = ''assets/b.png'', s3Key = ''p/123-0a0a0a0a0a0a0a0a.png'',
        s3Url = ''https://b.s3.example.com/p/123-0a0a0a0a0a0a0a0a.png'',
        contentType = ''image/png'', asize = 10, hash = ''0a0a0a0a0a0a0a0a'', uploadedAt = 123\<rparr>]
   \<and> notified (uploadFiles samplePlatform sampleConfig
      [(sampleFile, ''assets/a.png'', sampleEnv (Load 403 ''AccessDenied'')),
       (sampleFile, ''assets/b.png'', sampleEnv (Load 200 []))])
    = Some [(''assets/a.png'', UploadHttpError 403 ''AccessDenied'')]"
proof -
  have v: "validateConfig sampleConfig" using validate_sample [of None] by (simp add: sampleConfig_def)
  have k: "\<And>out. uploadKey samplePlatform sampleConfig (sampleEnv out) sampleFile None = ''p/123-0a0a0a0a0a0a0a0a.png''"
    using uploadKey_sample [of None] by (simp add: sampleConfig_def)
  have h: "calculateFileHash samplePlatform sampleFile = ''0a0a0a0a0a0a0a0a''" by code_simp
  have "fst (performUpload samplePlatform sampleConfig (sampleEnv (Load 403 ''AccessDenied'')) sampleFile
          ''p/123-0a0a0a0a0a0a0a0a.png'') = Inl (UploadHttpError 403 ''AccessDenied'')"
    by (rule performUpload_http_error [OF sampleEnv_xhr]) simp
  then have a: "fst (uploadFile samplePlatform sampleConfig (sampleEnv (Load 403 ''AccessDenied'')) sampleFile ''assets/a.png'' None)
     = Inl (UploadHttpError 403 ''AccessDenied'')"
    by (simp add: uploadFile_result [OF v] k)
  have "fst (performUpload samplePlatform sampleConfig (sampleEnv (Load 200 [])) sampleFile
          ''p/123-0a0a0a0a0a0a0a0a.png'') = Inr ''https://b.s3.example.com/p/123-0a0a0a0a0a0a0a0a.png''"
    using performUpload_direct_ok [OF sampleEnv_xhr, where st = 200 and pf = samplePlatform
        and cfg = sampleConfig and f = sampleFile and k = "''p/123-0a0a0a0a0a0a0a0a.png''"]
    by (simp add: sampleConfig_def stripScheme_def)
  then have b: "fst (uploadFile samplePlatform sampleConfig (sampleEnv (Load 200 [])) sampleFile ''assets/b.png'' None)
     = Inr \<lparr>localPath = ''assets/b.png'', s3Key = ''p/123-0a0a0a0a0a0a0a0a.png'',
        s3Url = ''https://b.s3.example.com/p/123-0a0a0a0a0a0a0a0a.png'',
        contentType = ''image/png'', asize = 10, hash = ''0a0a0a0a0a0a0a0a'', uploadedAt = 123\<rparr>"
    by (simp add: uploadFile_result [OF v] k h orElse_def) (simp add: sampleFile_def sampleEnv_def fsize_def)
  from a b uploadFiles_partial_failure [of samplePlatform sampleConfig
      "[(sampleFile, ''assets/a.png'', sampleEnv (Load 403 ''AccessDenied'')),
       (sampleFile, ''assets/b.png'', sampleEnv (Load 200 []))]"]
  show ?thesis by (simp add: batchSuccesses_def batchErrors_def)
qed

text \<open>
  C5, as stated, fails: a batch whose only file is refused with status 403 returns the
  same empty list as the empty batch; the error is in the notification only.
\<close>

theorem uploadFiles_errors_counterexample:
  "returned (uploadFiles samplePlatform sampleConfig
       [(sampleFile, ''assets/a.png'', sampleEnv (Load 403 ''AccessDenied''))]) = []
   \<and> notified (uploadFiles samplePlatform sampleConfig
       [(sampleFile, ''assets/a.png'', sampleEnv (Load 403 ''AccessDenied''))])
       = Some [(''assets/a.png'', UploadHttpError 403 ''AccessDenied'')]
   \<and> returned (uploadFiles samplePlatform sampleConfig []) = []
   \<and> notified (uploadFiles samplePlatform sampleConfig []) = None"
proof -
  have v: "validateConfig sampleConfig" using validate_sample [of None] by (simp add: sampleConfig_def)
  have "fst (performUpload samplePlatform sampleConfig (sampleEnv (Load 403 ''AccessDenied'')) sampleFile
          (uploadKey samplePlatform sampleConfig (sampleEnv (Load 403 ''AccessDenied'')) sampleFile None))
        = Inl (UploadHttpError 403 ''AccessDenied'')"
    by (rule performUpload_http_error [OF sampleEnv_xhr]) simp
  then have "fst (uploadFile samplePlatform sampleConfig (sampleEnv (Load 403 ''AccessDenied'')) sampleFile ''assets/a.png'' None)
     = Inl (UploadHttpError 403 ''AccessDenied'')"
    by (simp add: uploadFile_result [OF v])
  then show ?thesis
    by (simp add: uploadFiles_def uploadFiles_loop_acc batchSuccesses_def batchErrors_def)
qed

text \<open>
  C4. With a complete configuration, when the direct PUT of a file ends with a transport
  error and the relay upload succeeds with the URL \<open>u\<close>, \<open>uploadFile\<close> resolves
  with a record whose \<open>s3Url\<close> is \<open>u\<close>; a direct upload of the same key that gets
  a status from 200 to 299 resolves with the same record, and the record is among the
  results of every batch that holds the file.
\<close>

theorem relay_upload_same_url:
  assumes "validateConfig cfg"
    and "xhrSend ev (putRequest pf cfg ev f (uploadKey pf cfg ev f None)) = NetworkError"
    and "fst (uploadViaForwardProxy pf cfg ev f (uploadKey pf cfg ev f None)
               (req_headers (putRequest pf cfg ev f (uploadKey pf cfg ev f None)))) = Inr u"
    and "clock ev' = clock ev"
    and "xhrSend ev' (putRequest pf cfg ev' f (uploadKey pf cfg ev f None)) = Load st body"
    and "200 \<le> st" and "st < 300"
  shows "\<exists>rec. fst (uploadFile pf cfg ev f lp None) = Inr rec \<and> s3Url rec = u
       \<and> fst (uploadFile pf cfg ev' f lp None) = Inr rec
       \<and> rec \<in> set (returned (uploadFiles pf cfg (pre @ (f, lp, ev) # post)))"
proof -
  let ?k = "uploadKey pf cfg ev f None"
  let ?rec = "\<lparr>localPath = lp, s3Key = ?k, s3Url = u,
       contentType = (if ftype f = [] then guessContentType (fname f) else ftype f),
       asize = fsize f, hash = orElse None (calculateFileHash pf f), uploadedAt = clock ev\<rparr>"
  have k': "uploadKey pf cfg ev' f None = ?k" using assms(4) by (rule uploadKey_clock)
  have 1: "fst (performUpload pf cfg ev f ?k) = Inr u"
    using performUpload_relay [OF assms(2)] assms(3) by simp
  then have r: "fst (uploadFile pf cfg ev f lp None) = Inr ?rec"
    by (simp add: uploadFile_result [OF assms(1)])
  have 2: "fst (performUpload pf cfg ev' f ?k) = Inr u"
    using performUpload_direct_ok [OF assms(5,6,7)] uploadViaForwardProxy_ok [OF assms(3)] by simp
  then have r': "fst (uploadFile pf cfg ev' f lp None) = Inr ?rec"
    by (simp add: uploadFile_result [OF assms(1)] k' assms(4))
  have "?rec \<in> set (batchSuccesses pf cfg (pre @ (f, lp, ev) # post))"
    using r by (simp add: batchSuccesses_def)
  then have m: "?rec \<in> set (returned (uploadFiles pf cfg (pre @ (f, lp, ev) # post)))"
    by (simp add: uploadFiles_def uploadFiles_loop_acc)
  from r r' m show ?thesis by (intro exI [of _ ?rec]) simp
qed

theorem relay_upload_same_url_witness:
  "validateConfig (sampleConfig\<lparr>customDomain := Some ''https://cdn.example.com/''\<rparr>)
   \<and> xhrSend (sampleEnv NetworkError)
        (putRequest samplePlatform (sampleConfig\<lparr>customDomain := Some ''https://cdn.example.com/''\<rparr>)
           (sampleEnv NetworkError) sampleFile ''p/123-0a0a0a0a0a0a0a0a.png'') = NetworkError
   \<and> fst (uploadViaForwardProxy samplePlatform
             (sampleConfig\<lparr>customDomain := Some ''https://cdn.example.com/''\<rparr>)
             (sampleEnv NetworkError) sampleFile ''p/123-0a0a0a0a0a0a0a0a.png''
             (req_headers (putRequest samplePlatform
                (sampleConfig\<lparr>customDomain := Some ''https://cdn.example.com/''\<rparr>)
                (sampleEnv NetworkError) sampleFile ''p/123-0a0a0a0a0a0a0a0a.png'')))
       = Inr ''https://cdn.example.com/p/123-0a0a0a0a0a0a0a0a.png''
   \<and> (\<exists>rec. fst (uploadFile samplePlatform
                     (sampleConfig\<lparr>customDomain := Some ''https://cdn.example.com/''\<rparr>)
                     (sampleEnv (Load 200 [])) sampleFile ''assets/a.png'' None) = Inr rec
          \<and> s3Url rec = ''https://cdn.example.com/p/123-0a0a0a0a0a0a0a0a.png''
          \<and> rec \<in> set (returned (uploadFiles samplePlatform
                     (sampleConfig\<lparr>customDomain := Some ''https://cdn.example.com/''\<rparr>)
                     [(sampleFile, ''assets/a.png'', sampleEnv NetworkError)])))"
proof -
  let ?cfg = "sampleConfig\<lparr>customDomain := Some ''https://cdn.example.com/''\<rparr>"
  have k: "\<And>out. uploadKey samplePlatform ?cfg (sampleEnv out) sampleFile None = ''p/123-0a0a0a0a0a0a0a0a.png''"
    by (rule uploadKey_sample)
  have c: "clock (sampleEnv (Load 200 [])) = clock (sampleEnv NetworkError)" by (simp add: sampleEnv_def)
  have p: "fst (uploadViaForwardProxy samplePlatform ?cfg (sampleEnv NetworkError) sampleFile
        (uploadKey samplePlatform ?cfg (sampleEnv NetworkError) sampleFile None)
        (req_headers (putRequest samplePlatform ?cfg (sampleEnv NetworkError) sampleFile
           (uploadKey samplePlatform ?cfg (sampleEnv NetworkError) sampleFile None))))
     = Inr ''https://cdn.example.com/p/123-0a0a0a0a0a0a0a0a.png''"
    by (simp add: proxy_sample k)
  from relay_upload_same_url [where st = 200 and body = "[]" and lp = "''assets/a.png''"
      and pre = "[]" and post = "[]" and ev' = "sampleEnv (Load 200 [])",
      OF validate_sample sampleEnv_xhr p c sampleEnv_xhr]
  have "\<exists>rec. fst (uploadFile samplePlatform ?cfg (sampleEnv (Load 200 [])) sampleFile ''assets/a.png'' None) = Inr rec
          \<and> s3Url rec = ''https://cdn.example.com/p/123-0a0a0a0a0a0a0a0a.png''
          \<and> rec \<in> set (returned (uploadFiles samplePlatform ?cfg
                     [(sampleFile, ''assets/a.png'', sampleEnv NetworkError)]))"
    by auto
  with p validate_sample [of "Some ''https://cdn.example.com/''"] show ?thesis
    by (simp add: k sampleEnv_xhr)
qed

section \<open>Properties of the processing of a document\<close>

lemma find_localPath:
  "find (\<lambda>a. localPath a = p) xs = Some a \<Longrightarrow> localPath a = p \<and> a \<in> set xs"
  by (induction xs) (auto split: if_splits)

lemma findAssetByLocalPath_Some:
  "findAssetByLocalPath ms p = Some a \<Longrightarrow> localPath a = p \<and> (\<exists>e\<in>set ms. a \<in> set (assets (snd e)))"
proof (induction ms)
  case Nil
  then show ?case by simp
next
  case (Cons e ms)
  show ?case
  proof (cases "find (\<lambda>a. localPath a = p) (assets (snd e))")
    case None
    with Cons show ?thesis by auto
  next
    case (Some b)
    with Cons.prems have "b = a" by simp
    with Some find_localPath [of p "assets (snd e)" a] show ?thesis by auto
  qed
qed

lemma findAssetByLocalPath_None:
  "findAssetByLocalPath ms p = None \<Longrightarrow> e \<in> set ms \<Longrightarrow> r \<in> set (assets (snd e)) \<Longrightarrow> localPath r \<noteq> p"
proof (induction ms)
  case Nil
  then show ?case by simp
next
  case (Cons x ms)
  from Cons.prems(1) have n: "find (\<lambda>a. localPath a = p) (assets (snd x)) = None"
    and rest: "findAssetByLocalPath ms p = None"
    by (auto split: option.splits)
  show ?case
  proof (cases "e = x")
    case True
    with n Cons.prems(3) show ?thesis by (auto simp: find_None_iff)
  next
    case False
    with Cons.prems(2) have "e \<in> set ms" by simp
    from Cons.IH [OF rest this Cons.prems(3)] show ?thesis .
  qed
qed

lemma collectAssets_acc:
  "collectAssets ms world paths ua ftu fs =
     (ua @ concat (map (\<lambda>p. case findAssetByLocalPath ms p of Some a \<Rightarrow> [a] | None \<Rightarrow> []) paths),
      ftu @ concat (map (\<lambda>p. case findAssetByLocalPath ms p of
                                Some a \<Rightarrow> []
                              | None \<Rightarrow> (case fetched (world p) of
                                           Some file \<Rightarrow> [(file, p, upload_env (world p))]
                                         | None \<Rightarrow> [])) paths),
      fs @ filter (\<lambda>p. findAssetByLocalPath ms p = None) paths)"
  by (induction paths arbitrary: ua ftu fs) (simp_all split: option.splits)

lemma toUpload_paths:
  "x \<in> set (concat (map (\<lambda>p. case findAssetByLocalPath ms p of
                                Some a \<Rightarrow> []
                              | None \<Rightarrow> (case fetched (world p) of
                                           Some file \<Rightarrow> [(file, p, upload_env (world p))]
                                         | None \<Rightarrow> [])) paths))
   \<Longrightarrow> findAssetByLocalPath ms (fst (snd x)) = None"
  by (induction paths) (auto split: option.splits)

lemma uploadFiles_netlog_paths:
  "map fst (netlog (uploadFiles pf cfg files)) = map (\<lambda>x. fst (snd x)) files"
  by (simp add: uploadFiles_def uploadFiles_loop_acc batchAttempts_def case_prod_beta)

text \<open>
  C6. When the index records an asset under a local path and the path is among the asset
  paths of the document, \<open>findAssetByLocalPath\<close> finds a recorded asset with that
  path, the asset is in the returned list as it is recorded, the file of the path is not
  fetched, and no upload of the batch is for that path.
\<close>

theorem recorded_path_is_skipped:
  assumes "e \<in> set ms" and "r \<in> set (assets (snd e))" and "localPath r = p"
    and "p \<in> set assetPaths"
  shows "\<exists>a. findAssetByLocalPath ms p = Some a \<and> localPath a = p
           \<and> (\<exists>e'\<in>set ms. a \<in> set (assets (snd e')))
           \<and> a \<in> set (out_assets (processAndUploadAssets pf cfg ms world assetPaths))
           \<and> p \<notin> set (out_fetches (processAndUploadAssets pf cfg ms world assetPaths))
           \<and> (\<forall>b. out_batch (processAndUploadAssets pf cfg ms world assetPaths) = Some b
                  \<longrightarrow> p \<notin> set (map fst (netlog b)))"
proof -
  from assms(1-3) findAssetByLocalPath_None [of ms p e r] obtain a
    where a: "findAssetByLocalPath ms p = Some a" by (cases "findAssetByLocalPath ms p") auto
  note s = findAssetByLocalPath_Some [OF a]
  let ?ex = "concat (map (\<lambda>p. case findAssetByLocalPath ms p of Some a \<Rightarrow> [a] | None \<Rightarrow> []) assetPaths)"
  let ?up = "concat (map (\<lambda>p. case findAssetByLocalPath ms p of
                                Some a \<Rightarrow> []
                              | None \<Rightarrow> (case fetched (world p) of
                                           Some file \<Rightarrow> [(file, p, upload_env (world p))]
                                         | None \<Rightarrow> [])) assetPaths)"
  from assms(4) have ne: "assetPaths \<noteq> []" by auto
  from a assms(4) have mem: "a \<in> set ?ex" by force
  have nf: "p \<notin> set (filter (\<lambda>p. findAssetByLocalPath ms p = None) assetPaths)" using a by simp
  have nu: "p \<notin> set (map (\<lambda>x. fst (snd x)) ?up)"
  proof
    assume "p \<in> set (map (\<lambda>x. fst (snd x)) ?up)"
    then obtain x where "x \<in> set ?up" "fst (snd x) = p" by auto
    with toUpload_paths [where x = x and ms = ms and world = world and paths = assetPaths] a
    show False by simp
  qed
  have 1: "a \<in> set (out_assets (processAndUploadAssets pf cfg ms world assetPaths))"
    using mem ne by (simp add: processAndUploadAssets_def collectAssets_acc Let_def)
  have 2: "p \<notin> set (out_fetches (processAndUploadAssets pf cfg ms world assetPaths))"
    using nf ne by (simp add: processAndUploadAssets_def collectAssets_acc Let_def)
  have 3: "\<forall>b. out_batch (processAndUploadAssets pf cfg ms world assetPaths) = Some b
                  \<longrightarrow> p \<notin> set (map fst (netlog b))"
    using nu ne
    by (auto simp add: processAndUploadAssets_def collectAssets_acc Let_def
        uploadFiles_netlog_paths simp del: set_map)
  from a s 1 2 3 show ?thesis by blast
qed

theorem recorded_path_is_skipped_witness:
  "(''doc1'', \<lparr>docId = ''doc1'', shareId = ''share1'', assets = [sampleAsset],
                  createdAt = 1700000000000, updatedAt = 1700000000000\<rparr>) \<in> set sampleIndex
   \<and> localPath sampleAsset = ''assets/a.png''
   \<and> ''assets/a.png'' \<in> set [''assets/b.png'', ''assets/a.png'']
   \<and> sampleAsset \<in> set (out_assets (processAndUploadAssets samplePlatform sampleConfig sampleIndex
          sampleWorld [''assets/b.png'', ''assets/a.png'']))
   \<and> out_fetches (processAndUploadAssets samplePlatform sampleConfig sampleIndex
          sampleWorld [''assets/b.png'', ''assets/a.png'']) = [''assets/b.png'']"
proof -
  let ?e = "(''doc1'', \<lparr>docId = ''doc1'', shareId = ''share1'', assets = [sampleAsset],
                  createdAt = 1700000000000, updatedAt = 1700000000000\<rparr>)"
  have e: "?e \<in> set sampleIndex" by (simp add: sampleIndex_def)
  have r: "sampleAsset \<in> set (assets (snd ?e))" by simp
  have l: "localPath sampleAsset = ''assets/a.png''" by (simp add: sampleAsset_def)
  have m: "''assets/a.png'' \<in> set [''assets/b.png'', ''assets/a.png'']" by simp
  have f: "findAssetByLocalPath sampleIndex ''assets/a.png'' = Some sampleAsset"
    by (simp add: sampleIndex_def sampleAsset_def)
  have g: "findAssetByLocalPath sampleIndex ''assets/b.png'' = None"
    by (simp add: sampleIndex_def sampleAsset_def)
  from recorded_path_is_skipped [OF e r l m, where pf = samplePlatform and cfg = sampleConfig
      and world = sampleWorld] f
  have 1: "sampleAsset \<in> set (out_assets (processAndUploadAssets samplePlatform sampleConfig sampleIndex
          sampleWorld [''assets/b.png'', ''assets/a.png'']))"
    by auto
  have 2: "out_fetches (processAndUploadAssets samplePlatform sampleConfig sampleIndex
          sampleWorld [''assets/b.png'', ''assets/a.png'']) = [''assets/b.png'']"
    using f g by (simp add: processAndUploadAssets_def collectAssets_acc Let_def)
  from e l m 1 2 show ?thesis by (simp only: simp_thms)
qed

section \<open>The two copies of the Signature V4 signer\<close>

text \<open>
  In \<open>generateSignedHeaders\<close> of the service the canonical header block starts with the
  \<open>host\<close> line for \<open>bucket.endpoint\<close>, and the \<open>Authorization\<close> header lists
  \<open>host;x-amz-content-sha256;x-amz-date\<close> as signed headers, for every request.
\<close>

lemma generateSignedHeaders_signs_host:
  "canonicalHeaders cfg now =
     ''host:'' @ bucket cfg @ ''.'' @ stripScheme (endpoint cfg) @ nl @
     ''x-amz-content-sha256:UNSIGNED-PAYLOAD'' @ nl @
     ''x-amz-date:'' @ formatAmzDate now @ nl
   \<and> (\<exists>credential signature.
        map_of (generateSignedHeaders pf cfg now method key ctype len) ''Authorization''
          = Some (''AWS4-HMAC-SHA256 Credential='' @ credential @
                  '', SignedHeaders=host;x-amz-content-sha256;x-amz-date, Signature='' @ signature))"
proof -
  have 1: "canonicalHeaders cfg now =
     ''host:'' @ bucket cfg @ ''.'' @ stripScheme (endpoint cfg) @ nl @
     ''x-amz-content-sha256:UNSIGNED-PAYLOAD'' @ nl @
     ''x-amz-date:'' @ formatAmzDate now @ nl"
    by (simp add: canonicalHeaders_def signingHost_def payloadHash_def)
  have 2: "map_of (generateSignedHeaders pf cfg now method key ctype len) ''Authorization''
      = Some (''AWS4-HMAC-SHA256 Credential='' @
               (accessKeyId cfg @ ''/'' @ formatDateStamp now @ ''/'' @ region cfg @ ''/s3/aws4_request'') @
               '', SignedHeaders=host;x-amz-content-sha256;x-amz-date, Signature='' @
               hmacSha256Hex pf (getSignatureKey pf (secretAccessKey cfg) (formatDateStamp now) (region cfg) ''s3'')
                 (''AWS4-HMAC-SHA256'' @ nl @ formatAmzDate now @ nl @
                  (formatDateStamp now @ ''/'' @ region cfg @ ''/s3/aws4_request'') @ nl @
                  sha256 pf (canonicalRequest pf cfg now method key)))"
    by (simp add: generateSignedHeaders_def authorizationHeader_def Let_def signedHeaders_def)
  from 1 2 show ?thesis by blast
qed

text \<open>
  C1 holds for that copy and fails for the second copy (part_002). At the endpoint
  \<open>s3.example.com\<close>, bucket \<open>b\<close>, region \<open>us-east-1\<close> and key
  \<open>p/123-abc.png\<close> the canonical header block of the second copy has no \<open>host\<close>
  line and its \<open>Authorization\<close> header lists \<open>x-amz-content-sha256;x-amz-date\<close>
  only, where the first copy has both.
\<close>

theorem generateSignedHeaders_part002_omits_host:
  "canonicalHeaders_part002 sampleConfig sampleDate =
     ''x-amz-content-sha256:UNSIGNED-PAYLOAD'' @ nl @ ''x-amz-date:20240102T030405Z'' @ nl
   \<and> (\<exists>signature.
        map_of (generateSignedHeaders_part002 samplePlatform sampleConfig sampleDate
                  ''PUT'' ''p/123-abc.png'' ''image/png'' 10) ''Authorization''
          = Some (''AWS4-HMAC-SHA256 Credential=AKID/20240102/us-east-1/s3/aws4_request, '' @
                  ''SignedHeaders=x-amz-content-sha256;x-amz-date, Signature='' @ signature))
   \<and> canonicalHeaders sampleConfig sampleDate =
     ''host:b.s3.example.com'' @ nl @
     ''x-amz-content-sha256:UNSIGNED-PAYLOAD'' @ nl @ ''x-amz-date:20240102T030405Z'' @ nl
   \<and> (\<exists>signature.
        map_of (generateSignedHeaders samplePlatform sampleConfig sampleDate
                  ''PUT'' ''p/123-abc.png'' ''image/png'' 10) ''Authorization''
          = Some (''AWS4-HMAC-SHA256 Credential=AKID/20240102/us-east-1/s3/aws4_request, '' @
                  ''SignedHeaders=host;x-amz-content-sha256;x-amz-date, Signature='' @ signature))"
proof -
  have d: "formatDateStamp sampleDate = ''20240102''" by code_simp
  have a: "formatAmzDate sampleDate = ''20240102T030405Z''" by code_simp
  have s: "stripScheme ''https://s3.example.com'' = ''s3.example.com''" by code_simp
  have 1: "canonicalHeaders_part002 sampleConfig sampleDate =
     ''x-amz-content-sha256:UNSIGNED-PAYLOAD'' @ nl @ ''x-amz-date:20240102T030405Z'' @ nl"
    by (simp add: canonicalHeaders_part002_def payloadHash_def a)
  have 2: "\<exists>signature.
        map_of (generateSignedHeaders_part002 samplePlatform sampleConfig sampleDate
                  ''PUT'' ''p/123-abc.png'' ''image/png'' 10) ''Authorization''
          = Some (''AWS4-HMAC-SHA256 Credential=AKID/20240102/us-east-1/s3/aws4_request, '' @
                  ''SignedHeaders=x-amz-content-sha256;x-amz-date, Signature='' @ signature)"
    by (simp add: generateSignedHeaders_part002_def authorizationHeader_part002_def Let_def
        signedHeaders_part002_def d sampleConfig_def)
  have 3: "canonicalHeaders sampleConfig sampleDate =
     ''host:b.s3.example.com'' @ nl @
     ''x-amz-content-sha256:UNSIGNED-PAYLOAD'' @ nl @ ''x-amz-date:20240102T030405Z'' @ nl"
    by (simp add: canonicalHeaders_def signingHost_def payloadHash_def a s sampleConfig_def)
  have 4: "\<exists>signature.
        map_of (generateSignedHeaders samplePlatform sampleConfig sampleDate
                  ''PUT'' ''p/123-abc.png'' ''image/png'' 10) ''Authorization''
          = Some (''AWS4-HMAC-SHA256 Credential=AKID/20240102/us-east-1/s3/aws4_request, '' @
                  ''SignedHeaders=host;x-amz-content-sha256;x-amz-date, Signature='' @ signature)"
    by (simp add: generateSignedHeaders_def authorizationHeader_def Let_def
        signedHeaders_def d sampleConfig_def)
  from 1 2 3 4 show ?thesis by blast
qed

end
